theory Spec2Isabelle
  imports Main
begin

section \<open>Library functions the handler calls\<close>

text \<open>
  \<^verbatim>\<open>handler.go\<close> calls a few functions of Go's standard library. Each is modelled here
  after its documented behaviour, on byte strings (\<open>string\<close> is a list of 8-bit
  characters, as a Go string is a sequence of bytes).
\<close>

subsection \<open>strings.Split\<close>

text \<open>
  \<^verbatim>\<open>strings.Split(s, sep)\<close> for a separator of one byte, the only way the handler uses
  it: \<open>n\<close> occurrences of the separator give \<open>n + 1\<close> fields, and the empty string gives
  the one empty field.
\<close>

fun Split :: "string \<Rightarrow> char \<Rightarrow> string list" where
  "Split [] sep = [[]]"
| "Split (c # cs) sep =
     (if c = sep then [] # Split cs sep
      else (case Split cs sep of
              [] \<Rightarrow> [[c]]
            | f # fs \<Rightarrow> (c # f) # fs))"

subsection \<open>base64.StdEncoding\<close>

definition encodeStd :: string where
  "encodeStd = ''ABCDEFGHIJKLMNOPQRSTUVWXYZabcdefghijklmnopqrstuvwxyz0123456789+/''"

text \<open>The decoder's table: the position of a byte in the alphabet, if it has one.\<close>

definition decodeMap :: "char \<Rightarrow> nat option" where
  "decodeMap = map_of (zip encodeStd [0..<64])"

definition padChar :: char where
  "padChar = CHR ''=''"

text \<open>
  Four 6-bit values \<open>d0 .. d3\<close> of one quantum, joined as
  \<^verbatim>\<open>d0<<18 | d1<<12 | d2<<6 | d3\<close>, and the bytes \<^verbatim>\<open>val>>16\<close>, \<^verbatim>\<open>val>>8\<close>, \<^verbatim>\<open>val\<close> read from it
  (\<open>char_of\<close> keeps the low 8 bits).
\<close>

definition quantum_val :: "nat \<Rightarrow> nat \<Rightarrow> nat \<Rightarrow> nat \<Rightarrow> nat" where
  "quantum_val d0 d1 d2 d3 = d0 * 262144 + d1 * 4096 + d2 * 64 + d3"

definition quantum_bytes :: "nat \<Rightarrow> string" where
  "quantum_bytes val = [char_of (val div 65536), char_of (val div 256), char_of val]"

text \<open>
  The decoding loop over quanta of four input bytes. A quantum of four alphabet bytes
  gives three bytes; \<^verbatim>\<open>xx==\<close> gives one byte and \<^verbatim>\<open>xxx=\<close> two, and either must end the
  input (anything after the padding is trailing garbage); padding in the first or second
  place, a byte outside the alphabet, or an input that ends inside a quantum is corrupt.
  \<open>StdEncoding\<close> is not strict: the unused low bits of a padded quantum are not checked.
\<close>

fun decode :: "string \<Rightarrow> string option" where
  "decode [] = Some []"
| "decode (a # b # c # d # rest) =
     (case (decodeMap a, decodeMap b) of
        (Some d0, Some d1) \<Rightarrow>
          (case decodeMap c of
             Some d2 \<Rightarrow>
               (case decodeMap d of
                  Some d3 \<Rightarrow>
                    (case decode rest of
                       None \<Rightarrow> None
                     | Some bs \<Rightarrow> Some (quantum_bytes (quantum_val d0 d1 d2 d3) @ bs))
                | None \<Rightarrow>
                    if d = padChar \<and> rest = []
                    then Some (take 2 (quantum_bytes (quantum_val d0 d1 d2 0)))
                    else None)
           | None \<Rightarrow>
               if c = padChar \<and> d = padChar \<and> rest = []
               then Some (take 1 (quantum_bytes (quantum_val d0 d1 0 0)))
               else None)
      | _ \<Rightarrow> None)"
| "decode _ = None"

text \<open>
  \<^verbatim>\<open>StdEncoding.DecodeString\<close>: carriage returns and line feeds are ignored, the rest is
  decoded; \<open>None\<close> is the \<^verbatim>\<open>CorruptInputError\<close>.
\<close>

definition DecodeString :: "string \<Rightarrow> string option" where
  "DecodeString s = decode (filter (\<lambda>c. c \<noteq> CHR 0x0A \<and> c \<noteq> CHR 0x0D) s)"

text \<open>
  The encoder is not called by the handler: it is what a client does to build the header
  (RFC 4648, with padding), and is here to state the round trip.
\<close>

definition enc6 :: "nat \<Rightarrow> char" where
  "enc6 n = encodeStd ! (n mod 64)"

fun EncodeToString :: "string \<Rightarrow> string" where
  "EncodeToString [] = []"
| "EncodeToString [a] =
     (let x = (of_char a :: nat) in
      [enc6 (x div 4), enc6 (x mod 4 * 16), padChar, padChar])"
| "EncodeToString [a, b] =
     (let x = (of_char a :: nat); y = (of_char b :: nat) in
      [enc6 (x div 4), enc6 (x mod 4 * 16 + y div 16), enc6 (y mod 16 * 4), padChar])"
| "EncodeToString (a # b # c # rest) =
     (let x = (of_char a :: nat); y = (of_char b :: nat); z = (of_char c :: nat) in
      [enc6 (x div 4), enc6 (x mod 4 * 16 + y div 16), enc6 (y mod 16 * 4 + z div 64), enc6 z]
      @ EncodeToString rest)"

subsection \<open>url.Values and http.Header\<close>

text \<open>
  \<^verbatim>\<open>r.URL.Query()\<close> is the parsed query string, and \<^verbatim>\<open>Get\<close> gives the first value of a key
  or the empty string. The router stores the path parameters in the query under their
  pattern names (\<^verbatim>\<open>:name\<close>, \<^verbatim>\<open>:user\<close>, \<^verbatim>\<open>:db\<close>, \<^verbatim>\<open>:id\<close>). \<^verbatim>\<open>Header.Get\<close> is the same on the
  headers: a header that is absent reads as the empty string.
\<close>

type_synonym Values = "(string \<times> string) list"

definition Get :: "Values \<Rightarrow> string \<Rightarrow> string" where
  "Get v key = (case map_of v key of None \<Rightarrow> [] | Some x \<Rightarrow> x)"

subsection \<open>strconv.ParseUint\<close>

text \<open>
  \<^verbatim>\<open>strconv.ParseUint(s, 10, 64)\<close>: a non-empty string of decimal digits whose value fits
  64 bits; no sign, no underscore. \<open>None\<close> is the syntax or range error.
\<close>

definition digit_val :: "char \<Rightarrow> nat option" where
  "digit_val c =
     (if (48::nat) \<le> of_char c \<and> of_char c \<le> (57::nat) then Some (of_char c - 48) else None)"

fun digits_val :: "string \<Rightarrow> nat \<Rightarrow> nat option" where
  "digits_val [] acc = Some acc"
| "digits_val (c # cs) acc =
     (case digit_val c of None \<Rightarrow> None | Some d \<Rightarrow> digits_val cs (acc * 10 + d))"

definition ParseUint :: "string \<Rightarrow> nat option" where
  "ParseUint s =
     (if s = [] then None
      else (case digits_val s 0 of
              None \<Rightarrow> None
            | Some n \<Rightarrow> if n < 2 ^ 64 then Some n else None))"

subsection \<open>encoding/json\<close>

text \<open>
  A request body that the decoder accepts as JSON text is a value of this type: a string
  holds its unquoted bytes, a number its literal, an object its members in the order of
  the text (a key may occur twice).
\<close>

datatype json =
    JNull
  | JBool bool
  | JNumber string
  | JString string
  | JArray "json list"
  | JObject "(string \<times> json) list"

text \<open>
  The decoder matches an object key to a struct field by the field's name in the tag,
  ignoring case: two names match when they are equal after Unicode simple case folding.
  The fields here have names of ASCII letters, and the only other characters that fold
  to an ASCII letter are U+017F (long s, bytes C5 BF) and U+212A (Kelvin sign, bytes
  E2 84 AA).
\<close>

definition upper_byte :: "char \<Rightarrow> char" where
  "upper_byte c =
     (if (97::nat) \<le> of_char c \<and> of_char c \<le> (122::nat) then char_of (of_char c - (32::nat)) else c)"

function foldName :: "string \<Rightarrow> string" where
  "foldName s =
     (if s = [] then []
      else if take 2 s = [CHR 0xC5, CHR 0xBF] then CHR ''S'' # foldName (drop 2 s)
      else if take 3 s = [CHR 0xE2, CHR 0x84, CHR 0xAA] then CHR ''K'' # foldName (drop 3 s)
      else upper_byte (hd s) # foldName (tl s))"
  by pat_completeness auto
termination
  by (relation "measure length") auto

declare foldName.simps [simp del]

definition key_matches :: "string \<Rightarrow> string \<Rightarrow> bool" where
  "key_matches field key \<longleftrightarrow> foldName key = foldName field"

text \<open>
  Storing one JSON value into a field: a value of the field's type is stored, \<^verbatim>\<open>null\<close>
  leaves the field as it is, and any other value is an \<^verbatim>\<open>UnmarshalTypeError\<close>, after
  which the decoder goes on and reports the error at the end.
\<close>

datatype 'a stored = Stored 'a | Kept | Mismatch

fun as_string :: "json \<Rightarrow> string stored" where
  "as_string (JString s) = Stored s"
| "as_string JNull = Kept"
| "as_string _ = Mismatch"

fun as_bool :: "json \<Rightarrow> bool stored" where
  "as_bool (JBool b) = Stored b"
| "as_bool JNull = Kept"
| "as_bool _ = Mismatch"

fun as_uint64 :: "json \<Rightarrow> nat stored" where
  "as_uint64 (JNumber lit) = (case ParseUint lit of None \<Rightarrow> Mismatch | Some n \<Rightarrow> Stored n)"
| "as_uint64 JNull = Kept"
| "as_uint64 _ = Mismatch"

text \<open>The struct decoded so far, and whether an error has been saved.\<close>

fun assign :: "'a stored \<Rightarrow> ('a \<Rightarrow> 'r \<Rightarrow> 'r) \<Rightarrow> 'r \<times> bool \<Rightarrow> 'r \<times> bool" where
  "assign (Stored x) upd (r, e) = (upd x r, e)"
| "assign Kept upd (r, e) = (r, e)"
| "assign Mismatch upd (r, e) = (r, True)"

text \<open>
  Decoding a value into a struct, given what one member does to it: an object is decoded
  member by member, \<^verbatim>\<open>null\<close> changes nothing, any other value is a type error. \<open>None\<close> is
  the decoder's error.
\<close>

definition decode_struct ::
  "(string \<times> json \<Rightarrow> 'r \<times> bool \<Rightarrow> 'r \<times> bool) \<Rightarrow> 'r \<Rightarrow> json \<Rightarrow> 'r option" where
  "decode_struct member zero j =
     (case j of
        JObject ms \<Rightarrow>
          (case foldl (\<lambda>acc m. member m acc) (zero, False) ms of
             (r, failed) \<Rightarrow> if failed then None else Some r)
      | JNull \<Rightarrow> Some zero
      | _ \<Rightarrow> None)"

text \<open>
  \<^verbatim>\<open>json.NewDecoder(r.Body).Decode(&x)\<close> on a fresh \<open>x\<close>: a body that is empty or not JSON
  text (\<open>None\<close>) is an error.
\<close>

definition Decode :: "(json \<Rightarrow> 'r option) \<Rightarrow> json option \<Rightarrow> 'r option" where
  "Decode into body = (case body of None \<Rightarrow> None | Some j \<Rightarrow> into j)"

section \<open>Errors\<close>

text \<open>
  The error values the handler compares against are declared outside \<^verbatim>\<open>handler.go\<close>; only
  their identity matters here. \<open>Errorf\<close> is an error made on the spot with a message
  (\<^verbatim>\<open>fmt.Errorf\<close>, or any other error of the store).
\<close>

datatype err =
    ErrDatabaseExists
  | ErrDatabaseNotFound
  | ErrDatabaseNameRequired
  | ErrUserExists
  | ErrUserNotFound
  | ErrRetentionPolicyExists
  | ErrRetentionPolicyNotFound
  | ErrDataNodeExists
  | ErrDataNodeNotFound
  | Errorf string

section \<open>The wire shapes of \<^verbatim>\<open>handler.go\<close>\<close>

record userJSON =
  Name :: string
  Password :: string
  Admin :: bool

definition userJSON_member :: "string \<times> json \<Rightarrow> userJSON \<times> bool \<Rightarrow> userJSON \<times> bool" where
  "userJSON_member m acc =
     (if key_matches ''name'' (fst m) then assign (as_string (snd m)) (\<lambda>x u. u\<lparr>Name := x\<rparr>) acc
      else if key_matches ''password'' (fst m)
        then assign (as_string (snd m)) (\<lambda>x u. u\<lparr>Password := x\<rparr>) acc
      else if key_matches ''admin'' (fst m) then assign (as_bool (snd m)) (\<lambda>x u. u\<lparr>Admin := x\<rparr>) acc
      else acc)"

definition decode_userJSON :: "json \<Rightarrow> userJSON option" where
  "decode_userJSON =
     decode_struct userJSON_member \<lparr>Name = [], Password = [], Admin = False\<rparr>"

record dataNodeJSON =
  ID :: nat
  URL :: string

definition dataNodeJSON_member ::
  "string \<times> json \<Rightarrow> dataNodeJSON \<times> bool \<Rightarrow> dataNodeJSON \<times> bool" where
  "dataNodeJSON_member m acc =
     (if key_matches ''id'' (fst m) then assign (as_uint64 (snd m)) (\<lambda>x n. n\<lparr>ID := x\<rparr>) acc
      else if key_matches ''url'' (fst m) then assign (as_string (snd m)) (\<lambda>x n. n\<lparr>URL := x\<rparr>) acc
      else acc)"

definition decode_dataNodeJSON :: "json \<Rightarrow> dataNodeJSON option" where
  "decode_dataNodeJSON = decode_struct dataNodeJSON_member \<lparr>ID = 0, URL = []\<rparr>"

text \<open>The anonymous request struct of \<^verbatim>\<open>serveCreateDatabase\<close>, with its one field.\<close>

definition createDatabaseReq_member :: "string \<times> json \<Rightarrow> string \<times> bool \<Rightarrow> string \<times> bool" where
  "createDatabaseReq_member m acc =
     (if key_matches ''name'' (fst m) then assign (as_string (snd m)) (\<lambda>x n. x) acc else acc)"

definition decode_createDatabaseReq :: "json \<Rightarrow> string option" where
  "decode_createDatabaseReq = decode_struct createDatabaseReq_member []"

section \<open>Requests\<close>

record Request =
  Query :: Values
  Header :: Values
  Body :: "json option"

section \<open>getUsernameAndPassword\<close>

text \<open>
  The result \<^verbatim>\<open>(username, password, nil)\<close> is \<open>Inr (username, password)\<close>, and
  \<^verbatim>\<open>("", "", err)\<close> is \<open>Inl err\<close>.
\<close>

definition getUsernameAndPassword :: "Request \<Rightarrow> err + string \<times> string" where
  "getUsernameAndPassword r =
     (let q = Query r; username = Get q ''u''; password = Get q ''p'' in
      if username \<noteq> [] \<and> password \<noteq> [] then Inr (username, password)
      else
        let auth = Get (Header r) ''Authorization'' in
        if auth = [] then Inr ([], [])
        else
          let fields = Split auth (CHR '' '') in
          if length fields \<noteq> 2 then Inl (Errorf ''invalid Basic Authentication header'')
          else
            (case DecodeString (fields ! 1) of
               None \<Rightarrow> Inl (Errorf ''invalid Base64 encoding'')
             | Some bs \<Rightarrow>
                 let fields = Split bs (CHR '':'') in
                 if length fields \<noteq> 2 then Inl (Errorf ''invalid Basic Authentication value'')
                 else Inr (fields ! 0, fields ! 1)))"


section \<open>The server behind the handler\<close>

text \<open>
  \<^verbatim>\<open>Server\<close>, \<^verbatim>\<open>User\<close>, \<^verbatim>\<open>RetentionPolicy\<close> and the types of databases and shards are
  declared outside \<^verbatim>\<open>handler.go\<close>. The handler reads the fields \<^verbatim>\<open>Name\<close> and \<^verbatim>\<open>Admin\<close> of
  a user and \<^verbatim>\<open>ID\<close> and \<^verbatim>\<open>URL\<close> of a data node; the rest it only passes on, so a retention
  policy is a value of a type \<open>'rp\<close>, a parsed URL of a type \<open>'url\<close>, and what the server
  lists for the JSON encoder (databases, shards, policies) of a type \<open>'v\<close>.
\<close>

record User =
  user_Name :: string
  user_Admin :: bool

record 'url DataNode =
  node_ID :: nat
  node_URL :: 'url

text \<open>
  The server is a parameter: one function per method the handler calls, on a server
  state \<open>'s\<close>. Every method returns what the Go method returns, together with the state
  afterwards. A Go result \<^verbatim>\<open>error\<close> is an \<open>err option\<close>, \<open>None\<close> for \<^verbatim>\<open>nil\<close>, and a result
  that is a pointer an \<open>option\<close>, \<open>None\<close> for \<^verbatim>\<open>nil\<close>.
\<close>

record ('s, 'rp, 'url, 'v) Server =
  AuthenticatedUser :: "'s \<Rightarrow> string \<Rightarrow> string \<Rightarrow> (User option \<times> err option) \<times> 's"
  AdminUserExists :: "'s \<Rightarrow> bool \<times> 's"
  Users :: "'s \<Rightarrow> User list \<times> 's"
  CreateUser :: "'s \<Rightarrow> string \<Rightarrow> string \<Rightarrow> bool \<Rightarrow> err option \<times> 's"
  UpdateUser :: "'s \<Rightarrow> string \<Rightarrow> string \<Rightarrow> err option \<times> 's"
  DeleteUser :: "'s \<Rightarrow> string \<Rightarrow> err option \<times> 's"
  Databases :: "'s \<Rightarrow> 'v \<times> 's"
  CreateDatabase :: "'s \<Rightarrow> string \<Rightarrow> err option \<times> 's"
  DeleteDatabase :: "'s \<Rightarrow> string \<Rightarrow> err option \<times> 's"
  Shards :: "'s \<Rightarrow> string \<Rightarrow> ('v \<times> err option) \<times> 's"
  RetentionPolicies :: "'s \<Rightarrow> string \<Rightarrow> ('v \<times> err option) \<times> 's"
  CreateRetentionPolicy :: "'s \<Rightarrow> string \<Rightarrow> 'rp \<Rightarrow> err option \<times> 's"
  UpdateRetentionPolicy :: "'s \<Rightarrow> string \<Rightarrow> string \<Rightarrow> 'rp \<Rightarrow> err option \<times> 's"
  DeleteRetentionPolicy :: "'s \<Rightarrow> string \<Rightarrow> string \<Rightarrow> err option \<times> 's"
  DataNodes :: "'s \<Rightarrow> 'url DataNode list \<times> 's"
  CreateDataNode :: "'s \<Rightarrow> 'url \<Rightarrow> err option \<times> 's"
  DataNodeByURL :: "'s \<Rightarrow> 'url \<Rightarrow> 'url DataNode option \<times> 's"
  DeleteDataNode :: "'s \<Rightarrow> nat \<Rightarrow> err option \<times> 's"

text \<open>
  The other functions declared elsewhere: \<^verbatim>\<open>url.Parse\<close> and \<^verbatim>\<open>URL.String\<close>, the query
  parser (\<open>Some\<close> of its message when it fails), and the JSON decoder on the two types
  whose fields are not in \<^verbatim>\<open>handler.go\<close>: a retention policy (\<open>None\<close> when decoding
  fails), and a \<^verbatim>\<open>*User\<close>, for which only success matters.
\<close>

record ('rp, 'url) Lib =
  url_Parse :: "string \<Rightarrow> 'url option"
  url_String :: "'url \<Rightarrow> string"
  ParseQuery :: "string \<Rightarrow> string option"
  decode_RetentionPolicy :: "json \<Rightarrow> 'rp option"
  decodes_as_User :: "json \<Rightarrow> bool"

text \<open>The calls made on the server, in order, with their arguments.\<close>

datatype ('rp, 'url) call =
    CallAuthenticatedUser string string
  | CallAdminUserExists
  | CallUsers
  | CallCreateUser string string bool
  | CallUpdateUser string string
  | CallDeleteUser string
  | CallDatabases
  | CallCreateDatabase string
  | CallDeleteDatabase string
  | CallShards string
  | CallRetentionPolicies string
  | CallCreateRetentionPolicy string 'rp
  | CallUpdateRetentionPolicy string string 'rp
  | CallDeleteRetentionPolicy string string
  | CallDataNodes
  | CallCreateDataNode 'url
  | CallDataNodeByURL 'url
  | CallDeleteDataNode nat

section \<open>Responses\<close>

text \<open>
  What a handler writes: the text of an error (\<^verbatim>\<open>err.Error()\<close> of an error value, the
  JSON decoder's message, or a literal), or the JSON encoding of a value.
\<close>

datatype message =
    ErrorText err
  | DecodeError
  | Literal string

datatype 'v encoded =
    EncValue 'v
  | EncUsers "userJSON list"
  | EncDataNodes "dataNodeJSON list"
  | EncDataNode dataNodeJSON

datatype 'v chunk =
    ErrorLine message
  | JsonLine "'v encoded"

text \<open>
  The \<^verbatim>\<open>http.ResponseWriter\<close>: the header map, the status code once it is written, and
  the body written so far. A status code is written once: by the first \<^verbatim>\<open>WriteHeader\<close>,
  or as 200 by a \<^verbatim>\<open>Write\<close> that comes before any. A handler that returns without
  writing anything gets the status 200 from the HTTP server.
\<close>

record 'v ResponseWriter =
  header :: Values
  code :: "nat option"
  body :: "'v chunk list"

definition Header_Add :: "string \<Rightarrow> string \<Rightarrow> 'v ResponseWriter \<Rightarrow> 'v ResponseWriter" where
  "Header_Add k v w = w\<lparr>header := header w @ [(k, v)]\<rparr>"

definition WriteHeader :: "nat \<Rightarrow> 'v ResponseWriter \<Rightarrow> 'v ResponseWriter" where
  "WriteHeader c w = (if code w = None then w\<lparr>code := Some c\<rparr> else w)"

definition Write :: "'v chunk \<Rightarrow> 'v ResponseWriter \<Rightarrow> 'v ResponseWriter" where
  "Write x w = (WriteHeader 200 w)\<lparr>body := body w @ [x]\<rparr>"

definition status :: "'v ResponseWriter \<Rightarrow> nat" where
  "status w = (case code w of None \<Rightarrow> 200 | Some c \<Rightarrow> c)"

text \<open>
  \<^verbatim>\<open>http.Error\<close> writes the status code and then the message as the body. The content
  type it sets for the message is left out of the header map.
\<close>

definition http_Error :: "message \<Rightarrow> nat \<Rightarrow> 'v ResponseWriter \<Rightarrow> 'v ResponseWriter" where
  "http_Error msg c w = Write (ErrorLine msg) (WriteHeader c w)"

abbreviation StatusOK :: nat where "StatusOK \<equiv> 200"
abbreviation StatusCreated :: nat where "StatusCreated \<equiv> 201"
abbreviation StatusNoContent :: nat where "StatusNoContent \<equiv> 204"
abbreviation StatusBadRequest :: nat where "StatusBadRequest \<equiv> 400"
abbreviation StatusUnauthorized :: nat where "StatusUnauthorized \<equiv> 401"
abbreviation StatusNotFound :: nat where "StatusNotFound \<equiv> 404"
abbreviation StatusConflict :: nat where "StatusConflict \<equiv> 409"
abbreviation StatusInternalServerError :: nat where "StatusInternalServerError \<equiv> 500"

section \<open>The handler\<close>

text \<open>
  What one request changes: the server's state, the calls made on the server, the
  response, and whether the handler has panicked.
\<close>

record ('s, 'rp, 'url, 'v) World =
  store :: 's
  calls :: "('rp, 'url) call list"
  resp :: "'v ResponseWriter"
  panicked :: bool

text \<open>
  The fields of \<^verbatim>\<open>Handler\<close>. Its router is not a field here: what \<^verbatim>\<open>NewHandler\<close> registers
  is the function \<open>NewHandler\<close> below, from a route to its handler.
\<close>

record ('s, 'rp, 'url, 'v) Handler =
  server :: "('s, 'rp, 'url, 'v) Server"
  AuthenticationEnabled :: bool
  Version :: string

text \<open>A call of a server method: the call is recorded and the state replaced.\<close>

definition invoke ::
  "('s \<Rightarrow> 'a \<times> 's) \<Rightarrow> ('rp, 'url) call \<Rightarrow> ('s, 'rp, 'url, 'v) World
     \<Rightarrow> 'a \<times> ('s, 'rp, 'url, 'v) World" where
  "invoke method c x =
     (case method (store x) of
        (res, s') \<Rightarrow> (res, x\<lparr>store := s', calls := calls x @ [c]\<rparr>))"

text \<open>\<^verbatim>\<open>Handler.error\<close>, and the two other ways a handler writes to the response.\<close>

definition error ::
  "message \<Rightarrow> nat \<Rightarrow> ('s, 'rp, 'url, 'v) World \<Rightarrow> ('s, 'rp, 'url, 'v) World" where
  "error msg c x = x\<lparr>resp := http_Error msg c (resp x)\<rparr>"

definition respond_status :: "nat \<Rightarrow> ('s, 'rp, 'url, 'v) World \<Rightarrow> ('s, 'rp, 'url, 'v) World" where
  "respond_status c x = x\<lparr>resp := WriteHeader c (resp x)\<rparr>"

definition respond_json ::
  "'v encoded \<Rightarrow> ('s, 'rp, 'url, 'v) World \<Rightarrow> ('s, 'rp, 'url, 'v) World" where
  "respond_json v x =
     x\<lparr>resp := Write (JsonLine v) (Header_Add ''content-type'' ''application/json'' (resp x))\<rparr>"


type_synonym ('s, 'rp, 'url, 'v) HandlerFunc =
  "Request \<Rightarrow> ('s, 'rp, 'url, 'v) World \<Rightarrow> ('s, 'rp, 'url, 'v) World"

subsection \<open>makeAuthenticationHandler\<close>

definition makeAuthenticationHandler ::
  "('s, 'rp, 'url, 'v) Handler
     \<Rightarrow> (Request \<Rightarrow> User option \<Rightarrow> ('s, 'rp, 'url, 'v) World \<Rightarrow> ('s, 'rp, 'url, 'v) World)
     \<Rightarrow> ('s, 'rp, 'url, 'v) HandlerFunc" where
  "makeAuthenticationHandler h fn r x =
     (if AuthenticationEnabled h then
        (case getUsernameAndPassword r of
           Inl e \<Rightarrow> error (ErrorText e) StatusUnauthorized x
         | Inr (username, password) \<Rightarrow>
             (case invoke (\<lambda>s. AuthenticatedUser (server h) s username password)
                     (CallAuthenticatedUser username password) x of
                ((user, e), x1) \<Rightarrow>
                  (case e of
                     Some e' \<Rightarrow> error (ErrorText e') StatusUnauthorized x1
                   | None \<Rightarrow> fn r user x1)))
      else fn r None x)"

subsection \<open>Queries and series\<close>

definition serveQuery ::
  "('rp, 'url) Lib \<Rightarrow> Request \<Rightarrow> User option \<Rightarrow> ('s, 'rp, 'url, 'v) World
     \<Rightarrow> ('s, 'rp, 'url, 'v) World" where
  "serveQuery lib r u x =
     (let urlQry = Query r in
      case ParseQuery lib (Get urlQry ''q'') of
        Some m \<Rightarrow> error (Literal (''parse error: '' @ m)) StatusBadRequest x
      | None \<Rightarrow> x)"

definition serveWriteSeries ::
  "Request \<Rightarrow> User option \<Rightarrow> ('s, 'rp, 'url, 'v) World \<Rightarrow> ('s, 'rp, 'url, 'v) World" where
  "serveWriteSeries r u x = x"

subsection \<open>Databases\<close>

definition serveDatabases ::
  "('s, 'rp, 'url, 'v) Handler \<Rightarrow> Request \<Rightarrow> User option \<Rightarrow> ('s, 'rp, 'url, 'v) World
     \<Rightarrow> ('s, 'rp, 'url, 'v) World" where
  "serveDatabases h r u x =
     (case invoke (Databases (server h)) CallDatabases x of
        (databases, x1) \<Rightarrow> respond_json (EncValue databases) x1)"

definition serveCreateDatabase ::
  "('s, 'rp, 'url, 'v) Handler \<Rightarrow> Request \<Rightarrow> User option \<Rightarrow> ('s, 'rp, 'url, 'v) World
     \<Rightarrow> ('s, 'rp, 'url, 'v) World" where
  "serveCreateDatabase h r u x =
     (case Decode decode_createDatabaseReq (Body r) of
        None \<Rightarrow> error DecodeError StatusBadRequest x
      | Some name \<Rightarrow>
          if name = [] then error (ErrorText ErrDatabaseNameRequired) StatusBadRequest x
          else
            (case invoke (\<lambda>s. CreateDatabase (server h) s name) (CallCreateDatabase name) x of
               (e, x1) \<Rightarrow>
                 (case e of
                    Some e' \<Rightarrow>
                      if e' = ErrDatabaseExists then error (ErrorText e') StatusConflict x1
                      else error (ErrorText e') StatusInternalServerError x1
                  | None \<Rightarrow> respond_status StatusCreated x1)))"

definition serveDeleteDatabase ::
  "('s, 'rp, 'url, 'v) Handler \<Rightarrow> Request \<Rightarrow> User option \<Rightarrow> ('s, 'rp, 'url, 'v) World
     \<Rightarrow> ('s, 'rp, 'url, 'v) World" where
  "serveDeleteDatabase h r u x =
     (let name = Get (Query r) '':name'' in
      case invoke (\<lambda>s. DeleteDatabase (server h) s name) (CallDeleteDatabase name) x of
        (e, x1) \<Rightarrow>
          (case e of
             Some e' \<Rightarrow>
               if e' = ErrDatabaseNotFound then error (ErrorText e') StatusNotFound x1
               else error (ErrorText e') StatusInternalServerError x1
           | None \<Rightarrow> respond_status StatusNoContent x1))"

subsection \<open>Users\<close>

definition serveAuthenticate :: "('s, 'rp, 'url, 'v) HandlerFunc" where
  "serveAuthenticate r x = x"

definition serveUsers ::
  "('s, 'rp, 'url, 'v) Handler \<Rightarrow> Request \<Rightarrow> User option \<Rightarrow> ('s, 'rp, 'url, 'v) World
     \<Rightarrow> ('s, 'rp, 'url, 'v) World" where
  "serveUsers h r u x =
     (case invoke (Users (server h)) CallUsers x of
        (us, x1) \<Rightarrow>
          respond_json
            (EncUsers (map (\<lambda>u. \<lparr>Name = user_Name u, Password = [], Admin = user_Admin u\<rparr>) us))
            x1)"

text \<open>
  The last step of \<^verbatim>\<open>serveCreateUser\<close> (\<^verbatim>\<open>// Create the user.\<close>), which the function
  reaches when the authentication step is not taken or has passed. On success nothing
  is written to the response.
\<close>

definition serveCreateUser_create ::
  "('s, 'rp, 'url, 'v) Handler \<Rightarrow> userJSON \<Rightarrow> ('s, 'rp, 'url, 'v) World
     \<Rightarrow> ('s, 'rp, 'url, 'v) World" where
  "serveCreateUser_create h newUser x =
     (case invoke (\<lambda>s. CreateUser (server h) s (Name newUser) (Password newUser) (Admin newUser))
             (CallCreateUser (Name newUser) (Password newUser) (Admin newUser)) x of
        (e, x1) \<Rightarrow>
          (case e of
             Some e' \<Rightarrow>
               if e' = ErrUserExists then error (ErrorText e') StatusConflict x1
               else error (ErrorText e') StatusInternalServerError x1
           | None \<Rightarrow> x1))"

text \<open>
  In the condition \<^verbatim>\<open>h.AuthenticationEnabled && (h.server.AdminUserExists() || !newUser.Admin)\<close>
  the server is asked only when authentication is enabled, and then before the admin
  flag is looked at.
\<close>

definition serveCreateUser :: "('s, 'rp, 'url, 'v) Handler \<Rightarrow> ('s, 'rp, 'url, 'v) HandlerFunc" where
  "serveCreateUser h r x =
     (case Decode decode_userJSON (Body r) of
        None \<Rightarrow> error DecodeError StatusBadRequest x
      | Some newUser \<Rightarrow>
          if AuthenticationEnabled h then
            (case invoke (AdminUserExists (server h)) CallAdminUserExists x of
               (adminExists, x1) \<Rightarrow>
                 if adminExists \<or> \<not> Admin newUser then
                   (case getUsernameAndPassword r of
                      Inl e \<Rightarrow> error (ErrorText e) StatusUnauthorized x1
                    | Inr (username, password) \<Rightarrow>
                        (case invoke (\<lambda>s. AuthenticatedUser (server h) s username password)
                                (CallAuthenticatedUser username password) x1 of
                           ((user, e), x2) \<Rightarrow>
                             (case e of
                                Some e' \<Rightarrow> error (ErrorText e') StatusUnauthorized x2
                              | None \<Rightarrow> serveCreateUser_create h newUser x2)))
                 else serveCreateUser_create h newUser x1)
          else serveCreateUser_create h newUser x)"

text \<open>
  \<^verbatim>\<open>serveUpdateUser\<close> declares \<^verbatim>\<open>var user userJSON\<close> and decodes the body into \<^verbatim>\<open>&u\<close>, the
  \<^verbatim>\<open>*User\<close> it was given: \<open>user\<close> keeps its zero value.
  Of that decoding only success or failure is kept here. When \<open>u\<close> is not \<^verbatim>\<open>nil\<close> (a
  user that \<open>AuthenticatedUser\<close> returned), the decoder also writes the body's fields
  into that user, an effect on the server's own data that this function does not show.
\<close>

definition serveUpdateUser ::
  "('s, 'rp, 'url, 'v) Handler \<Rightarrow> ('rp, 'url) Lib \<Rightarrow> Request \<Rightarrow> User option
     \<Rightarrow> ('s, 'rp, 'url, 'v) World \<Rightarrow> ('s, 'rp, 'url, 'v) World" where
  "serveUpdateUser h lib r u x =
     (let user = \<lparr>Name = [], Password = [], Admin = False\<rparr> in
      case Decode (\<lambda>j. if decodes_as_User lib j then Some () else None) (Body r) of
        None \<Rightarrow> error DecodeError StatusBadRequest x
      | Some _ \<Rightarrow>
          (case invoke (\<lambda>s. UpdateUser (server h) s (Get (Query r) '':user'') (Password user))
                  (CallUpdateUser (Get (Query r) '':user'') (Password user)) x of
             (e, x1) \<Rightarrow>
               (case e of
                  Some e' \<Rightarrow>
                    if e' = ErrUserNotFound then error (ErrorText e') StatusNotFound x1
                    else error (ErrorText e') StatusInternalServerError x1
                | None \<Rightarrow> respond_status StatusNoContent x1)))"

definition serveDeleteUser ::
  "('s, 'rp, 'url, 'v) Handler \<Rightarrow> Request \<Rightarrow> User option \<Rightarrow> ('s, 'rp, 'url, 'v) World
     \<Rightarrow> ('s, 'rp, 'url, 'v) World" where
  "serveDeleteUser h r u x =
     (case invoke (\<lambda>s. DeleteUser (server h) s (Get (Query r) '':user''))
             (CallDeleteUser (Get (Query r) '':user'')) x of
        (e, x1) \<Rightarrow>
          (case e of
             Some e' \<Rightarrow>
               if e' = ErrUserNotFound then error (ErrorText e') StatusNotFound x1
               else error (ErrorText e') StatusInternalServerError x1
           | None \<Rightarrow> respond_status StatusNoContent x1))"

definition servePing ::
  "Request \<Rightarrow> User option \<Rightarrow> ('s, 'rp, 'url, 'v) World \<Rightarrow> ('s, 'rp, 'url, 'v) World" where
  "servePing r u x = x"


subsection \<open>Shards\<close>

definition serveShards ::
  "('s, 'rp, 'url, 'v) Handler \<Rightarrow> Request \<Rightarrow> User option \<Rightarrow> ('s, 'rp, 'url, 'v) World
     \<Rightarrow> ('s, 'rp, 'url, 'v) World" where
  "serveShards h r u x =
     (let q = Query r in
      case invoke (\<lambda>s. Shards (server h) s (Get q '':db'')) (CallShards (Get q '':db'')) x of
        ((shards, e), x1) \<Rightarrow>
          (case e of
             Some e' \<Rightarrow>
               if e' = ErrDatabaseNotFound then error (ErrorText e') StatusNotFound x1
               else error (ErrorText e') StatusInternalServerError x1
           | None \<Rightarrow> respond_json (EncValue shards) x1))"

text \<open>The body of \<^verbatim>\<open>serveDeleteShard\<close> is empty.\<close>

definition serveDeleteShard ::
  "Request \<Rightarrow> User option \<Rightarrow> ('s, 'rp, 'url, 'v) World \<Rightarrow> ('s, 'rp, 'url, 'v) World" where
  "serveDeleteShard r u x = x"

subsection \<open>Retention policies\<close>

definition serveRetentionPolicies ::
  "('s, 'rp, 'url, 'v) Handler \<Rightarrow> Request \<Rightarrow> User option \<Rightarrow> ('s, 'rp, 'url, 'v) World
     \<Rightarrow> ('s, 'rp, 'url, 'v) World" where
  "serveRetentionPolicies h r u x =
     (case invoke (\<lambda>s. RetentionPolicies (server h) s (Get (Query r) '':db''))
             (CallRetentionPolicies (Get (Query r) '':db'')) x of
        ((policies, e), x1) \<Rightarrow>
          (case e of
             Some e' \<Rightarrow>
               if e' = ErrDatabaseNotFound then error (ErrorText e') StatusNotFound x1
               else error (ErrorText e') StatusInternalServerError x1
           | None \<Rightarrow> respond_json (EncValue policies) x1))"

definition serveCreateRetentionPolicy ::
  "('s, 'rp, 'url, 'v) Handler \<Rightarrow> ('rp, 'url) Lib \<Rightarrow> Request \<Rightarrow> User option
     \<Rightarrow> ('s, 'rp, 'url, 'v) World \<Rightarrow> ('s, 'rp, 'url, 'v) World" where
  "serveCreateRetentionPolicy h lib r u x =
     (case Decode (decode_RetentionPolicy lib) (Body r) of
        None \<Rightarrow> error DecodeError StatusBadRequest x
      | Some policy \<Rightarrow>
          (case invoke (\<lambda>s. CreateRetentionPolicy (server h) s (Get (Query r) '':db'') policy)
                  (CallCreateRetentionPolicy (Get (Query r) '':db'') policy) x of
             (e, x1) \<Rightarrow>
               (case e of
                  Some e' \<Rightarrow>
                    if e' = ErrDatabaseNotFound then error (ErrorText e') StatusNotFound x1
                    else if e' = ErrRetentionPolicyExists then error (ErrorText e') StatusConflict x1
                    else error (ErrorText e') StatusInternalServerError x1
                | None \<Rightarrow> respond_status StatusCreated x1)))"

definition serveUpdateRetentionPolicy ::
  "('s, 'rp, 'url, 'v) Handler \<Rightarrow> ('rp, 'url) Lib \<Rightarrow> Request \<Rightarrow> User option
     \<Rightarrow> ('s, 'rp, 'url, 'v) World \<Rightarrow> ('s, 'rp, 'url, 'v) World" where
  "serveUpdateRetentionPolicy h lib r u x =
     (let q = Query r; db = Get q '':db''; name = Get q '':name'' in
      case Decode (decode_RetentionPolicy lib) (Body r) of
        None \<Rightarrow> error DecodeError StatusBadRequest x
      | Some policy \<Rightarrow>
          (case invoke (\<lambda>s. UpdateRetentionPolicy (server h) s db name policy)
                  (CallUpdateRetentionPolicy db name policy) x of
             (e, x1) \<Rightarrow>
               (case e of
                  Some e' \<Rightarrow>
                    if e' = ErrDatabaseNotFound \<or> e' = ErrRetentionPolicyNotFound
                    then error (ErrorText e') StatusNotFound x1
                    else error (ErrorText e') StatusInternalServerError x1
                | None \<Rightarrow> respond_status StatusNoContent x1)))"

definition serveDeleteRetentionPolicy ::
  "('s, 'rp, 'url, 'v) Handler \<Rightarrow> Request \<Rightarrow> User option \<Rightarrow> ('s, 'rp, 'url, 'v) World
     \<Rightarrow> ('s, 'rp, 'url, 'v) World" where
  "serveDeleteRetentionPolicy h r u x =
     (let q = Query r; db = Get q '':db''; name = Get q '':name'' in
      case invoke (\<lambda>s. DeleteRetentionPolicy (server h) s db name)
             (CallDeleteRetentionPolicy db name) x of
        (e, x1) \<Rightarrow>
          (case e of
             Some e' \<Rightarrow>
               if e' = ErrDatabaseNotFound \<or> e' = ErrRetentionPolicyNotFound
               then error (ErrorText e') StatusNotFound x1
               else error (ErrorText e') StatusInternalServerError x1
           | None \<Rightarrow> respond_status StatusNoContent x1))"

subsection \<open>Data nodes\<close>

definition serveDataNodes ::
  "('s, 'rp, 'url, 'v) Handler \<Rightarrow> ('rp, 'url) Lib \<Rightarrow> Request \<Rightarrow> User option
     \<Rightarrow> ('s, 'rp, 'url, 'v) World \<Rightarrow> ('s, 'rp, 'url, 'v) World" where
  "serveDataNodes h lib r u x =
     (case invoke (DataNodes (server h)) CallDataNodes x of
        (ns, x1) \<Rightarrow>
          respond_json
            (EncDataNodes (map (\<lambda>n. \<lparr>ID = node_ID n, URL = url_String lib (node_URL n)\<rparr>) ns))
            x1)"

text \<open>
  After a successful creation the node is read back and its fields are encoded; a
  \<^verbatim>\<open>nil\<close> node makes \<^verbatim>\<open>node.ID\<close> panic, after the status code has been written.
\<close>

definition serveCreateDataNode ::
  "('s, 'rp, 'url, 'v) Handler \<Rightarrow> ('rp, 'url) Lib \<Rightarrow> Request \<Rightarrow> User option
     \<Rightarrow> ('s, 'rp, 'url, 'v) World \<Rightarrow> ('s, 'rp, 'url, 'v) World" where
  "serveCreateDataNode h lib r u x =
     (case Decode decode_dataNodeJSON (Body r) of
        None \<Rightarrow> error DecodeError StatusBadRequest x
      | Some n \<Rightarrow>
          (case url_Parse lib (URL n) of
             None \<Rightarrow> error (Literal ''invalid data node url'') StatusBadRequest x
           | Some url \<Rightarrow>
               (case invoke (\<lambda>s. CreateDataNode (server h) s url) (CallCreateDataNode url) x of
                  (e, x1) \<Rightarrow>
                    (case e of
                       Some e' \<Rightarrow>
                         if e' = ErrDataNodeExists then error (ErrorText e') StatusConflict x1
                         else error (ErrorText e') StatusInternalServerError x1
                     | None \<Rightarrow>
                         (case invoke (\<lambda>s. DataNodeByURL (server h) s url) (CallDataNodeByURL url) x1 of
                            (node, x2) \<Rightarrow>
                              let x3 = respond_status StatusCreated x2 in
                              (case node of
                                 None \<Rightarrow>
                                   x3\<lparr>resp := Header_Add ''content-type'' ''application/json'' (resp x3),
                                      panicked := True\<rparr>
                               | Some nd \<Rightarrow>
                                   respond_json
                                     (EncDataNode \<lparr>ID = node_ID nd, URL = url_String lib (node_URL nd)\<rparr>)
                                     x3))))))"

definition serveDeleteDataNode ::
  "('s, 'rp, 'url, 'v) Handler \<Rightarrow> Request \<Rightarrow> User option \<Rightarrow> ('s, 'rp, 'url, 'v) World
     \<Rightarrow> ('s, 'rp, 'url, 'v) World" where
  "serveDeleteDataNode h r u x =
     (case ParseUint (Get (Query r) '':id'') of
        None \<Rightarrow> error (Literal ''invalid node id'') StatusBadRequest x
      | Some nodeID \<Rightarrow>
          (case invoke (\<lambda>s. DeleteDataNode (server h) s nodeID) (CallDeleteDataNode nodeID) x of
             (e, x1) \<Rightarrow>
               (case e of
                  Some e' \<Rightarrow>
                    if e' = ErrDataNodeNotFound then error (ErrorText e') StatusNotFound x1
                    else error (ErrorText e') StatusInternalServerError x1
                | None \<Rightarrow> respond_status StatusNoContent x1)))"

subsection \<open>The routes of NewHandler\<close>

datatype route =
    GET_authenticate
  | GET_users | POST_users | PUT_users_user | DEL_users_user
  | GET_db | POST_db | DEL_db_name
  | GET_db_series | POST_db_series
  | GET_db_shards | DEL_db_shards_id
  | GET_db_retention_policies | POST_db_retention_policies
  | PUT_db_retention_policies_name | DEL_db_retention_policies_name
  | GET_data_nodes | POST_data_nodes | DEL_data_nodes_id
  | GET_ping

fun NewHandler ::
  "('s, 'rp, 'url, 'v) Handler \<Rightarrow> ('rp, 'url) Lib \<Rightarrow> route \<Rightarrow> ('s, 'rp, 'url, 'v) HandlerFunc" where
  "NewHandler h lib GET_authenticate = serveAuthenticate"
| "NewHandler h lib GET_users = makeAuthenticationHandler h (serveUsers h)"
| "NewHandler h lib POST_users = serveCreateUser h"
| "NewHandler h lib PUT_users_user = makeAuthenticationHandler h (serveUpdateUser h lib)"
| "NewHandler h lib DEL_users_user = makeAuthenticationHandler h (serveDeleteUser h)"
| "NewHandler h lib GET_db = makeAuthenticationHandler h (serveDatabases h)"
| "NewHandler h lib POST_db = makeAuthenticationHandler h (serveCreateDatabase h)"
| "NewHandler h lib DEL_db_name = makeAuthenticationHandler h (serveDeleteDatabase h)"
| "NewHandler h lib GET_db_series = makeAuthenticationHandler h (serveQuery lib)"
| "NewHandler h lib POST_db_series = makeAuthenticationHandler h serveWriteSeries"
| "NewHandler h lib GET_db_shards = makeAuthenticationHandler h (serveShards h)"
| "NewHandler h lib DEL_db_shards_id = makeAuthenticationHandler h serveDeleteShard"
| "NewHandler h lib GET_db_retention_policies =
     makeAuthenticationHandler h (serveRetentionPolicies h)"
| "NewHandler h lib POST_db_retention_policies =
     makeAuthenticationHandler h (serveCreateRetentionPolicy h lib)"
| "NewHandler h lib PUT_db_retention_policies_name =
     makeAuthenticationHandler h (serveUpdateRetentionPolicy h lib)"
| "NewHandler h lib DEL_db_retention_policies_name =
     makeAuthenticationHandler h (serveDeleteRetentionPolicy h)"
| "NewHandler h lib GET_data_nodes = makeAuthenticationHandler h (serveDataNodes h lib)"
| "NewHandler h lib POST_data_nodes = makeAuthenticationHandler h (serveCreateDataNode h lib)"
| "NewHandler h lib DEL_data_nodes_id = makeAuthenticationHandler h (serveDeleteDataNode h)"
| "NewHandler h lib GET_ping = makeAuthenticationHandler h servePing"


section \<open>A server to run the handler on\<close>

text \<open>
  A small server held in memory, to run the handler on concrete requests: users with
  their passwords and admin flags, database names, retention policies by database (a
  policy is its name), and data nodes (a URL is its text).
\<close>

record TestStore =
  ts_users :: "(string \<times> string \<times> bool) list"
  ts_databases :: "string list"
  ts_policies :: "(string \<times> string) list"
  ts_nodes :: "(nat \<times> string) list"

definition user_of :: "string \<times> string \<times> bool \<Rightarrow> User" where
  "user_of t = \<lparr>user_Name = fst t, user_Admin = snd (snd t)\<rparr>"

definition node_of :: "nat \<times> string \<Rightarrow> string DataNode" where
  "node_of t = \<lparr>node_ID = fst t, node_URL = snd t\<rparr>"

definition testServer :: "(TestStore, string, string, string list) Server" where
  "testServer = \<lparr>
     AuthenticatedUser = (\<lambda>s username password.
       (case find (\<lambda>t. fst t = username \<and> fst (snd t) = password) (ts_users s) of
          Some t \<Rightarrow> ((Some (user_of t), None), s)
        | None \<Rightarrow> ((None, Some (Errorf ''invalid username or password'')), s))),
     AdminUserExists = (\<lambda>s. (list_ex (\<lambda>t. snd (snd t)) (ts_users s), s)),
     Users = (\<lambda>s. (map user_of (ts_users s), s)),
     CreateUser = (\<lambda>s name password admin.
       if list_ex (\<lambda>t. fst t = name) (ts_users s) then (Some ErrUserExists, s)
       else (None, s\<lparr>ts_users := ts_users s @ [(name, password, admin)]\<rparr>)),
     UpdateUser = (\<lambda>s name password.
       if list_ex (\<lambda>t. fst t = name) (ts_users s)
       then (None, s\<lparr>ts_users :=
               map (\<lambda>t. if fst t = name then (name, password, snd (snd t)) else t) (ts_users s)\<rparr>)
       else (Some ErrUserNotFound, s)),
     DeleteUser = (\<lambda>s name.
       if list_ex (\<lambda>t. fst t = name) (ts_users s)
       then (None, s\<lparr>ts_users := filter (\<lambda>t. fst t \<noteq> name) (ts_users s)\<rparr>)
       else (Some ErrUserNotFound, s)),
     Databases = (\<lambda>s. (ts_databases s, s)),
     CreateDatabase = (\<lambda>s name.
       if List.member (ts_databases s) name then (Some ErrDatabaseExists, s)
       else (None, s\<lparr>ts_databases := ts_databases s @ [name]\<rparr>)),
     DeleteDatabase = (\<lambda>s name.
       if List.member (ts_databases s) name
       then (None, s\<lparr>ts_databases := filter (\<lambda>d. d \<noteq> name) (ts_databases s)\<rparr>)
       else (Some ErrDatabaseNotFound, s)),
     Shards = (\<lambda>s db.
       if List.member (ts_databases s) db then (([], None), s)
       else (([], Some ErrDatabaseNotFound), s)),
     RetentionPolicies = (\<lambda>s db.
       if List.member (ts_databases s) db
       then ((map snd (filter (\<lambda>t. fst t = db) (ts_policies s)), None), s)
       else (([], Some ErrDatabaseNotFound), s)),
     CreateRetentionPolicy = (\<lambda>s db policy.
       if \<not> List.member (ts_databases s) db then (Some ErrDatabaseNotFound, s)
       else if List.member (ts_policies s) (db, policy) then (Some ErrRetentionPolicyExists, s)
       else (None, s\<lparr>ts_policies := ts_policies s @ [(db, policy)]\<rparr>)),
     UpdateRetentionPolicy = (\<lambda>s db name policy.
       if \<not> List.member (ts_databases s) db then (Some ErrDatabaseNotFound, s)
       else if \<not> List.member (ts_policies s) (db, name) then (Some ErrRetentionPolicyNotFound, s)
       else (None, s\<lparr>ts_policies :=
               map (\<lambda>t. if t = (db, name) then (db, policy) else t) (ts_policies s)\<rparr>)),
     DeleteRetentionPolicy = (\<lambda>s db name.
       if \<not> List.member (ts_databases s) db then (Some ErrDatabaseNotFound, s)
       else if \<not> List.member (ts_policies s) (db, name) then (Some ErrRetentionPolicyNotFound, s)
       else (None, s\<lparr>ts_policies := filter (\<lambda>t. t \<noteq> (db, name)) (ts_policies s)\<rparr>)),
     DataNodes = (\<lambda>s. (map node_of (ts_nodes s), s)),
     CreateDataNode = (\<lambda>s url.
       if list_ex (\<lambda>t. snd t = url) (ts_nodes s) then (Some ErrDataNodeExists, s)
       else (None, s\<lparr>ts_nodes := ts_nodes s @ [(Suc (length (ts_nodes s)), url)]\<rparr>)),
     DataNodeByURL = (\<lambda>s url. (map_option node_of (find (\<lambda>t. snd t = url) (ts_nodes s)), s)),
     DeleteDataNode = (\<lambda>s nodeID.
       if list_ex (\<lambda>t. fst t = nodeID) (ts_nodes s)
       then (None, s\<lparr>ts_nodes := filter (\<lambda>t. fst t \<noteq> nodeID) (ts_nodes s)\<rparr>)
       else (Some ErrDataNodeNotFound, s)) \<rparr>"

text \<open>
  Stand-ins for the functions declared elsewhere: a URL is rejected when it starts with
  a colon (\<^verbatim>\<open>missing protocol scheme\<close>), a query when it is empty, a retention policy is
  decoded from an object by its \<^verbatim>\<open>name\<close>, and an object or \<^verbatim>\<open>null\<close> decodes as a user.
\<close>

definition testLib :: "(string, string) Lib" where
  "testLib = \<lparr>
     url_Parse = (\<lambda>s. if take 1 s = '':'' then None else Some s),
     url_String = (\<lambda>u. u),
     ParseQuery = (\<lambda>q. if q = [] then Some ''found EOF'' else None),
     decode_RetentionPolicy = (\<lambda>j.
       case j of
         JObject ms \<Rightarrow>
           (case map_of ms ''name'' of
              Some (JString n) \<Rightarrow> Some n
            | Some JNull \<Rightarrow> Some []
            | Some _ \<Rightarrow> None
            | None \<Rightarrow> Some [])
       | JNull \<Rightarrow> Some []
       | _ \<Rightarrow> None),
     decodes_as_User = (\<lambda>j. case j of JObject ms \<Rightarrow> True | JNull \<Rightarrow> True | _ \<Rightarrow> False) \<rparr>"

definition testHandler :: "bool \<Rightarrow> (TestStore, string, string, string list) Handler" where
  "testHandler enabled =
     \<lparr>server = testServer, AuthenticationEnabled = enabled, Version = ''0.9''\<rparr>"

text \<open>A request starts on a response nothing has been written to.\<close>

definition start :: "TestStore \<Rightarrow> (TestStore, string, string, string list) World" where
  "start s = \<lparr>store = s, calls = [], resp = \<lparr>header = [], code = None, body = []\<rparr>, panicked = False\<rparr>"

definition emptyStore :: TestStore where
  "emptyStore = \<lparr>ts_users = [], ts_databases = [], ts_policies = [], ts_nodes = []\<rparr>"


text \<open>Sample inputs: a store with one administrator, and a request to create a user.\<close>

definition adminStore :: TestStore where
  "adminStore = emptyStore\<lparr>ts_users := [(''root'', ''pw'', True)]\<rparr>"

definition createUserRequest :: "Values \<Rightarrow> Values \<Rightarrow> string \<Rightarrow> string \<Rightarrow> bool \<Rightarrow> Request" where
  "createUserRequest q hdr name password admin =
     \<lparr>Query = q, Header = hdr,
      Body = Some (JObject [(''name'', JString name), (''password'', JString password),
                            (''admin'', JBool admin)])\<rparr>"

section \<open>Facts about the library functions\<close>

lemma Split_not_Nil: "Split s sep \<noteq> []"
  by (induction s) (auto split: list.splits)

lemma length_Split: "length (Split s sep) = Suc (count_list s sep)"
  by (induction s) (auto split: list.splits simp: Split_not_Nil)

lemma Split_no_sep: "sep \<notin> set s \<Longrightarrow> Split s sep = [s]"
  by (induction s) auto

lemma Split_append_sep: "sep \<notin> set a \<Longrightarrow> Split (a @ sep # b) sep = a # Split b sep"
  by (induction a) auto

lemma count_list_0_iff: "count_list s c = 0 \<longleftrightarrow> c \<notin> set s"
  by (induction s) auto

lemma Split_pair:
  assumes "length (Split (a @ sep # b) sep) = 2"
  shows "Split (a @ sep # b) sep = [a, b]"
proof -
  from assms have "count_list (a @ sep # b) sep = 1"
    by (simp add: length_Split)
  hence "count_list a sep = 0" "count_list b sep = 0"
    by simp_all
  hence "sep \<notin> set a" "sep \<notin> set b"
    by (simp_all add: count_list_0_iff)
  thus ?thesis
    by (simp add: Split_append_sep Split_no_sep)
qed

lemma distinct_encodeStd: "distinct encodeStd" by (simp add: encodeStd_def)
lemma length_encodeStd: "length encodeStd = 64" by (simp add: encodeStd_def)

lemma decodeMap_enc6: "decodeMap (enc6 n) = Some (n mod 64)"
  unfolding decodeMap_def enc6_def
  using map_of_zip_nth[of encodeStd "[0..<64]" "n mod 64"] distinct_encodeStd length_encodeStd
  by simp

lemma decodeMap_padChar: "decodeMap padChar = None"
  by (simp add: decodeMap_def padChar_def encodeStd_def)

lemma enc6_in_alphabet: "enc6 n \<in> set encodeStd"
  by (simp add: enc6_def length_encodeStd)

lemma alphabet_no_newline: "c \<in> set encodeStd \<Longrightarrow> c \<noteq> CHR 0x0A \<and> c \<noteq> CHR 0x0D \<and> c \<noteq> CHR '' ''"
  by (auto simp add: encodeStd_def)

lemma enc6_plain: "enc6 n \<noteq> CHR 0x0A" "enc6 n \<noteq> CHR 0x0D" "enc6 n \<noteq> CHR '' ''"
  using alphabet_no_newline[OF enc6_in_alphabet, of n] by simp_all

lemma EncodeToString_chars:
  "c \<in> set (EncodeToString s) \<Longrightarrow> c \<noteq> CHR 0x0A \<and> c \<noteq> CHR 0x0D \<and> c \<noteq> CHR '' ''"
  by (induction s arbitrary: c rule: EncodeToString.induct)
     (auto simp: Let_def padChar_def enc6_plain)

lemma quantum_val_join:
  fixes q1 r1 q2 r2 q3 r3 :: nat
  shows "quantum_val q1 (r1 * 16 + q2) (r2 * 4 + q3) r3
       = (4 * q1 + r1) * 65536 + (16 * q2 + r2) * 256 + (64 * q3 + r3)"
  by (simp add: quantum_val_def)

lemma sextet0: "(a::nat) < 256 \<Longrightarrow> a div 4 mod 64 = a div 4"
  by simp

lemma sextet1:
  fixes a b :: nat
  assumes "b < 256"
  shows "(a mod 4 * 16 + b div 16) mod 64 = a mod 4 * 16 + b div 16"
proof -
  have "a mod 4 < 4" "b div 16 < 16" using assms by simp_all
  hence "a mod 4 * 16 + b div 16 < 64" by linarith
  thus ?thesis by simp
qed

lemma sextet2:
  fixes b c :: nat
  assumes "c < 256"
  shows "(b mod 16 * 4 + c div 64) mod 64 = b mod 16 * 4 + c div 64"
proof -
  have "b mod 16 < 16" "c div 64 < 4" using assms by simp_all
  hence "b mod 16 * 4 + c div 64 < 64" by linarith
  thus ?thesis by simp
qed

lemmas sextets = sextet0 sextet1 sextet2

lemma quantum_val_bytes:
  fixes a b c :: nat
  shows "quantum_val (a div 4) (a mod 4 * 16 + b div 16) (b mod 16 * 4 + c div 64) (c mod 64)
     = a * 65536 + b * 256 + c"
  by (simp only: quantum_val_join mult_div_mod_eq)

lemma quantum_bytes_join:
  fixes a b c :: nat
  assumes "a < 256" "b < 256" "c < 256"
  shows "quantum_bytes (a * 65536 + b * 256 + c) = [char_of a, char_of b, char_of c]"
proof -
  have e1: "a * 65536 + b * 256 + c = (b * 256 + c) + a * 65536" by simp
  have "b * 256 + c < 65536" using assms by linarith
  hence 1: "(a * 65536 + b * 256 + c) div 65536 = a"
    unfolding e1 by simp
  have e2: "a * 65536 + b * 256 + c = c + (a * 256 + b) * 256" by simp
  have d2: "(a * 65536 + b * 256 + c) div 256 = a * 256 + b"
    unfolding e2 using assms(3) by simp
  have "(a * 256 + b) mod 256 = b mod 256"
    by (metis add.commute mod_mult_self1)
  hence 2: "char_of ((a * 65536 + b * 256 + c) div 256) = char_of b"
    unfolding d2 by simp
  have "(a * 65536 + b * 256 + c) mod 256 = c mod 256"
    unfolding e2 by (rule mod_mult_self1)
  hence 3: "char_of (a * 65536 + b * 256 + c) = char_of c"
    by simp
  show ?thesis by (simp only: quantum_bytes_def 1 2 3)
qed


lemma decode_full_quantum:
  "decode (enc6 (of_char a div 4) # enc6 (of_char a mod 4 * 16 + of_char b div 16)
      # enc6 (of_char b mod 16 * 4 + of_char c div 64) # enc6 (of_char c) # rest)
   = (case decode rest of None \<Rightarrow> None | Some bs \<Rightarrow> Some (a # b # c # bs))"
proof -
  have "quantum_bytes (quantum_val (of_char a div 4 mod 64)
          ((of_char a mod 4 * 16 + of_char b div 16) mod 64)
          ((of_char b mod 16 * 4 + of_char c div 64) mod 64) (of_char c mod 64))
        = [a, b, c]"
    by (simp add: sextets quantum_val_bytes quantum_bytes_join)
  thus ?thesis
    by (simp add: decodeMap_enc6 split: option.splits)
qed

lemma decode_two_bytes:
  "decode [enc6 (of_char a div 4), enc6 (of_char a mod 4 * 16 + of_char b div 16),
      enc6 (of_char b mod 16 * 4), padChar] = Some [a, b]"
proof -
  have "quantum_val (of_char a div 4) (of_char a mod 4 * 16 + of_char b div 16)
          (of_char b mod 16 * 4 + 0 div 64) (0 mod 64) = of_char a * 65536 + of_char b * 256 + 0"
    by (rule quantum_val_bytes)
  hence "quantum_bytes (quantum_val (of_char a div 4 mod 64)
          ((of_char a mod 4 * 16 + of_char b div 16) mod 64)
          ((of_char b mod 16 * 4 + 0 div 64) mod 64) 0)
        = [a, b, char_of (0::nat)]"
    using quantum_bytes_join[of "of_char a" "of_char b" 0]
    by (simp add: sextets)
  thus ?thesis
    by (simp add: decodeMap_enc6 decodeMap_padChar)
qed

lemma decode_one_byte:
  "decode [enc6 (of_char a div 4), enc6 (of_char a mod 4 * 16), padChar, padChar] = Some [a]"
proof -
  have "quantum_val (of_char a div 4) (of_char a mod 4 * 16 + 0 div 16)
          (0 mod 16 * 4 + 0 div 64) (0 mod 64) = of_char a * 65536 + 0 * 256 + 0"
    by (rule quantum_val_bytes)
  hence "quantum_bytes (quantum_val (of_char a div 4 mod 64)
          ((of_char a mod 4 * 16 + 0 div 16) mod 64) 0 0)
        = [a, char_of (0::nat), char_of (0::nat)]"
    using quantum_bytes_join[of "of_char a" 0 0]
    by (simp add: sextets)
  thus ?thesis
    by (simp add: decodeMap_enc6 decodeMap_padChar)
qed

lemma decode_EncodeToString: "decode (EncodeToString s) = Some s"
proof (induction s rule: EncodeToString.induct)
  case 1
  show ?case by simp
next
  case (2 a)
  show ?case by (simp only: EncodeToString.simps Let_def decode_one_byte)
next
  case (3 a b)
  show ?case by (simp only: EncodeToString.simps Let_def decode_two_bytes)
next
  case (4 a b c rest)
  thus ?case
    by (simp only: EncodeToString.simps Let_def append_Cons append_Nil decode_full_quantum
        option.case)
qed

lemma DecodeString_EncodeToString: "DecodeString (EncodeToString s) = Some s"
proof -
  have "filter (\<lambda>c. c \<noteq> CHR 0x0A \<and> c \<noteq> CHR 0x0D) (EncodeToString s) = EncodeToString s"
    by (rule filter_True) (simp add: EncodeToString_chars)
  thus ?thesis
    by (simp add: DecodeString_def decode_EncodeToString)
qed

lemma Split_Basic:
  "Split (''Basic '' @ EncodeToString s) (CHR '' '') = [''Basic'', EncodeToString s]"
proof -
  have "CHR '' '' \<notin> set (EncodeToString s)"
    using EncodeToString_chars by blast
  hence "Split (EncodeToString s) (CHR '' '') = [EncodeToString s]"
    by (rule Split_no_sep)
  moreover have "Split (''Basic'' @ CHR '' '' # EncodeToString s) (CHR '' '')
      = ''Basic'' # Split (EncodeToString s) (CHR '' '')"
    by (rule Split_append_sep) simp
  ultimately show ?thesis by simp
qed

section \<open>The credential extractor\<close>

text \<open>
  Claim C8. On a request that does not carry both a non-empty \<^verbatim>\<open>u\<close> and a non-empty \<^verbatim>\<open>p\<close>
  query parameter, a well-formed Basic Authentication header for a pair (the scheme, a
  space, and the standard Base64 encoding of username, colon, password, where that text
  has exactly two colon-separated fields) gives back exactly that username and password.
\<close>

theorem basic_auth_round_trip:
  assumes "\<not> (Get (Query r) ''u'' \<noteq> [] \<and> Get (Query r) ''p'' \<noteq> [])"
    and "Get (Header r) ''Authorization'' = ''Basic '' @ EncodeToString (username @ '':'' @ password)"
    and "length (Split (username @ '':'' @ password) (CHR '':'')) = 2"
  shows "getUsernameAndPassword r = Inr (username, password)"
proof -
  have fields: "Split (username @ CHR '':'' # password) (CHR '':'') = [username, password]"
    using assms(3) Split_pair[of username "CHR '':''" password] by simp
  have auth: "Get (Header r) ''Authorization'' \<noteq> []"
    by (simp add: assms(2))
  have tokens: "Split (Get (Header r) ''Authorization'') (CHR '' '')
      = [''Basic'', EncodeToString (username @ '':'' @ password)]"
    by (simp only: assms(2) Split_Basic)
  have decoded: "DecodeString ([''Basic'', EncodeToString (username @ '':'' @ password)] ! 1)
      = Some (username @ '':'' @ password)"
    by (simp only: nth_Cons_Suc nth_Cons_0 One_nat_def DecodeString_EncodeToString)
  show ?thesis
    unfolding getUsernameAndPassword_def Let_def tokens decoded
    using assms(1) auth
    by (auto simp add: fields simp del: Split.simps EncodeToString.simps)
qed

theorem basic_auth_round_trip_witness:
  "\<not> (Get [(''u'', ''bob'')] ''u'' \<noteq> [] \<and> Get [(''u'', ''bob'')] ''p'' \<noteq> [])
   \<and> ''Basic YWxpY2U6c2VjcmV0'' = ''Basic '' @ EncodeToString (''alice'' @ '':'' @ ''secret'')
   \<and> length (Split (''alice'' @ '':'' @ ''secret'') (CHR '':'')) = 2
   \<and> getUsernameAndPassword
        \<lparr>Query = [(''u'', ''bob'')],
         Header = [(''Authorization'', ''Basic YWxpY2U6c2VjcmV0'')],
         Body = None\<rparr> = Inr (''alice'', ''secret'')"
proof -
  let ?r = "\<lparr>Query = [(''u'', ''bob'')],
      Header = [(''Authorization'', ''Basic YWxpY2U6c2VjcmV0'')], Body = None\<rparr>"
  have 1: "\<not> (Get (Query ?r) ''u'' \<noteq> [] \<and> Get (Query ?r) ''p'' \<noteq> [])"
    by (simp add: Get_def)
  have enc: "''Basic YWxpY2U6c2VjcmV0'' = ''Basic '' @ EncodeToString (''alice'' @ '':'' @ ''secret'')"
    by code_simp
  have 2: "Get (Header ?r) ''Authorization''
      = ''Basic '' @ EncodeToString (''alice'' @ '':'' @ ''secret'')"
    by code_simp
  have 3: "length (Split (''alice'' @ '':'' @ ''secret'') (CHR '':'')) = 2"
    by simp
  have "getUsernameAndPassword ?r = Inr (''alice'', ''secret'')"
    by (rule basic_auth_round_trip [OF 1 2 3])
  with 1 enc 3 show ?thesis
    by (simp only: Request.simps simp_thms)
qed

text \<open>
  Claim C9. When exactly one of the \<^verbatim>\<open>u\<close> and \<^verbatim>\<open>p\<close> query parameters is non-empty and
  there is no Authorization header, the extractor returns the empty username and
  password and no error.
\<close>

theorem partial_query_credentials_ignored:
  assumes "(Get (Query r) ''u'' \<noteq> []) \<noteq> (Get (Query r) ''p'' \<noteq> [])"
    and "Get (Header r) ''Authorization'' = []"
  shows "getUsernameAndPassword r = Inr ([], [])"
  using assms by (auto simp add: getUsernameAndPassword_def Let_def)

theorem partial_query_credentials_ignored_witness:
  "(Get [(''u'', ''bob'')] ''u'' \<noteq> []) \<noteq> (Get [(''u'', ''bob'')] ''p'' \<noteq> [])
   \<and> Get [] ''Authorization'' = []
   \<and> getUsernameAndPassword \<lparr>Query = [(''u'', ''bob'')], Header = [], Body = None\<rparr> = Inr ([], [])"
  using partial_query_credentials_ignored
    [of "\<lparr>Query = [(''u'', ''bob'')], Header = [], Body = None\<rparr>"]
  by (simp add: Get_def)

section \<open>Facts about responses\<close>

text \<open>
  An error response changes nothing but the response, and on a response nothing has been
  written to it sets the status code.
\<close>

lemma error_unfold:
  "store (error m c x) = store x" "calls (error m c x) = calls x"
  "panicked (error m c x) = panicked x"
  by (simp_all add: error_def)

lemma status_error: "code (resp x) = None \<Longrightarrow> status (resp (error m c x)) = c"
  by (simp add: error_def http_Error_def Write_def WriteHeader_def status_def)

lemma code_respond_status: "code (resp x) = None \<Longrightarrow> code (resp (respond_status c x)) = Some c"
  by (simp add: respond_status_def WriteHeader_def)

lemma body_respond_status: "body (resp (respond_status c x)) = body (resp x)"
  by (simp add: respond_status_def WriteHeader_def)

lemma status_respond_status: "code (resp x) = None \<Longrightarrow> status (resp (respond_status c x)) = c"
  by (simp add: respond_status_def WriteHeader_def status_def)

lemma status_respond_json:
  "code (resp x) = None \<Longrightarrow> status (resp (respond_json v x)) = StatusOK"
  by (simp add: respond_json_def Write_def WriteHeader_def Header_Add_def status_def)

lemma body_respond_json: "body (resp (respond_json v x)) = body (resp x) @ [JsonLine v]"
  by (simp add: respond_json_def Write_def WriteHeader_def Header_Add_def)

lemmas test_defs =
  testHandler_def testServer_def testLib_def start_def emptyStore_def adminStore_def
  createUserRequest_def user_of_def node_of_def

lemmas decode_defs =
  Decode_def decode_struct_def decode_userJSON_def userJSON_member_def
  decode_dataNodeJSON_def dataNodeJSON_member_def decode_createDatabaseReq_def
  createDatabaseReq_member_def key_matches_def foldName.simps upper_byte_def

lemma createUserRequest_decodes:
  "Decode decode_userJSON (Body (createUserRequest q hdr name password admin))
   = Some \<lparr>Name = name, Password = password, Admin = admin\<rparr>"
  by (simp add: createUserRequest_def decode_defs)

section \<open>The authentication gate\<close>

text \<open>Every route but \<^verbatim>\<open>GET /authenticate\<close> and \<^verbatim>\<open>POST /users\<close> is wrapped by the gate.\<close>

lemma NewHandler_gated:
  "rt \<noteq> GET_authenticate \<Longrightarrow> rt \<noteq> POST_users \<Longrightarrow>
   \<exists>fn. NewHandler h lib rt = makeAuthenticationHandler h fn"
  by (cases rt) auto

text \<open>
  Claim C2. A handler wrapped by \<open>makeAuthenticationHandler\<close>: when authentication is not
  enabled, the wrapped handler runs with no user on the untouched state, so that neither
  the credentials are read nor the server is asked. When it is enabled, an error of the
  credential extractor, or an error of \<open>AuthenticatedUser\<close>, gives the response 401
  without the wrapped handler (which does not occur on the right-hand side); and when
  \<open>AuthenticatedUser\<close> returns no error, the wrapped handler runs with the user it
  returned.
\<close>

theorem authentication_gate:
  "(\<not> AuthenticationEnabled h \<longrightarrow> makeAuthenticationHandler h fn r x = fn r None x)
   \<and> (AuthenticationEnabled h \<and> getUsernameAndPassword r = Inl e \<longrightarrow>
        makeAuthenticationHandler h fn r x = error (ErrorText e) StatusUnauthorized x
        \<and> (code (resp x) = None \<longrightarrow>
             status (resp (makeAuthenticationHandler h fn r x)) = StatusUnauthorized))
   \<and> (AuthenticationEnabled h \<and> getUsernameAndPassword r = Inr (username, password)
        \<and> AuthenticatedUser (server h) (store x) username password = ((user, Some e'), s') \<longrightarrow>
        makeAuthenticationHandler h fn r x =
          error (ErrorText e') StatusUnauthorized
            (x\<lparr>store := s', calls := calls x @ [CallAuthenticatedUser username password]\<rparr>)
        \<and> (code (resp x) = None \<longrightarrow>
             status (resp (makeAuthenticationHandler h fn r x)) = StatusUnauthorized))
   \<and> (AuthenticationEnabled h \<and> getUsernameAndPassword r = Inr (username, password)
        \<and> AuthenticatedUser (server h) (store x) username password = ((user, None), s') \<longrightarrow>
        makeAuthenticationHandler h fn r x =
          fn r user (x\<lparr>store := s', calls := calls x @ [CallAuthenticatedUser username password]\<rparr>))"
  (is "?disabled \<and> ?extractor \<and> ?refused \<and> ?accepted")
proof (intro conjI)
  show ?disabled
    by (simp add: makeAuthenticationHandler_def)
next
  show ?extractor
  proof
    assume a: "AuthenticationEnabled h \<and> getUsernameAndPassword r = Inl e"
    hence eq: "makeAuthenticationHandler h fn r x = error (ErrorText e) StatusUnauthorized x"
      by (simp add: makeAuthenticationHandler_def)
    thus "makeAuthenticationHandler h fn r x = error (ErrorText e) StatusUnauthorized x
        \<and> (code (resp x) = None \<longrightarrow>
             status (resp (makeAuthenticationHandler h fn r x)) = StatusUnauthorized)"
      by (simp add: status_error)
  qed
next
  let ?x1 = "x\<lparr>store := s', calls := calls x @ [CallAuthenticatedUser username password]\<rparr>"
  show ?refused
  proof
    assume a: "AuthenticationEnabled h \<and> getUsernameAndPassword r = Inr (username, password)
        \<and> AuthenticatedUser (server h) (store x) username password = ((user, Some e'), s')"
    hence "invoke (\<lambda>s. AuthenticatedUser (server h) s username password)
        (CallAuthenticatedUser username password) x = ((user, Some e'), ?x1)"
      by (simp add: invoke_def)
    with a have eq: "makeAuthenticationHandler h fn r x
        = error (ErrorText e') StatusUnauthorized ?x1"
      by (simp add: makeAuthenticationHandler_def)
    have "code (resp x) = None \<longrightarrow> status (resp (error (ErrorText e') StatusUnauthorized ?x1))
        = StatusUnauthorized"
      by (simp add: status_error)
    with eq show "makeAuthenticationHandler h fn r x = error (ErrorText e') StatusUnauthorized ?x1
        \<and> (code (resp x) = None \<longrightarrow>
             status (resp (makeAuthenticationHandler h fn r x)) = StatusUnauthorized)"
      by simp
  qed
  show ?accepted
  proof
    assume a: "AuthenticationEnabled h \<and> getUsernameAndPassword r = Inr (username, password)
        \<and> AuthenticatedUser (server h) (store x) username password = ((user, None), s')"
    hence "invoke (\<lambda>s. AuthenticatedUser (server h) s username password)
        (CallAuthenticatedUser username password) x = ((user, None), ?x1)"
      by (simp add: invoke_def)
    with a show "makeAuthenticationHandler h fn r x = fn r user ?x1"
      by (simp add: makeAuthenticationHandler_def)
  qed
qed

text \<open>
  The four cases on the test server: authentication disabled with a malformed header, and
  authentication enabled with a malformed header, with a wrong password, and with the
  administrator's password.
\<close>

theorem authentication_gate_witness:
  "(\<not> AuthenticationEnabled (testHandler False)
    \<and> makeAuthenticationHandler (testHandler False) (serveDatabases (testHandler False))
         \<lparr>Query = [], Header = [(''Authorization'', ''Basic'')], Body = None\<rparr> (start adminStore)
       = serveDatabases (testHandler False)
           \<lparr>Query = [], Header = [(''Authorization'', ''Basic'')], Body = None\<rparr> None
           (start adminStore))
   \<and> (AuthenticationEnabled (testHandler True)
    \<and> getUsernameAndPassword \<lparr>Query = [], Header = [(''Authorization'', ''Basic'')], Body = None\<rparr>
         = Inl (Errorf ''invalid Basic Authentication header'')
    \<and> makeAuthenticationHandler (testHandler True) (serveDatabases (testHandler True))
         \<lparr>Query = [], Header = [(''Authorization'', ''Basic'')], Body = None\<rparr> (start adminStore)
       = error (ErrorText (Errorf ''invalid Basic Authentication header'')) StatusUnauthorized
           (start adminStore)
    \<and> status (resp (makeAuthenticationHandler (testHandler True) (serveDatabases (testHandler True))
         \<lparr>Query = [], Header = [(''Authorization'', ''Basic'')], Body = None\<rparr> (start adminStore)))
       = StatusUnauthorized)
   \<and> (getUsernameAndPassword \<lparr>Query = [(''u'', ''root''), (''p'', ''bad'')], Header = [], Body = None\<rparr>
         = Inr (''root'', ''bad'')
    \<and> AuthenticatedUser (server (testHandler True)) (store (start adminStore)) ''root'' ''bad''
         = ((None, Some (Errorf ''invalid username or password'')), adminStore)
    \<and> calls (makeAuthenticationHandler (testHandler True) (serveDatabases (testHandler True))
         \<lparr>Query = [(''u'', ''root''), (''p'', ''bad'')], Header = [], Body = None\<rparr>
         (start adminStore)) = [CallAuthenticatedUser ''root'' ''bad'']
    \<and> status (resp (makeAuthenticationHandler (testHandler True) (serveDatabases (testHandler True))
         \<lparr>Query = [(''u'', ''root''), (''p'', ''bad'')], Header = [], Body = None\<rparr>
         (start adminStore))) = StatusUnauthorized)
   \<and> (getUsernameAndPassword \<lparr>Query = [(''u'', ''root''), (''p'', ''pw'')], Header = [], Body = None\<rparr>
         = Inr (''root'', ''pw'')
    \<and> AuthenticatedUser (server (testHandler True)) (store (start adminStore)) ''root'' ''pw''
         = ((Some \<lparr>user_Name = ''root'', user_Admin = True\<rparr>, None), adminStore)
    \<and> makeAuthenticationHandler (testHandler True) (serveDatabases (testHandler True))
         \<lparr>Query = [(''u'', ''root''), (''p'', ''pw'')], Header = [], Body = None\<rparr>
         (start adminStore)
       = serveDatabases (testHandler True)
           \<lparr>Query = [(''u'', ''root''), (''p'', ''pw'')], Header = [], Body = None\<rparr>
           (Some \<lparr>user_Name = ''root'', user_Admin = True\<rparr>)
           ((start adminStore)\<lparr>store := adminStore, calls := [CallAuthenticatedUser ''root'' ''pw'']\<rparr>))"
proof -
  let ?bad = "\<lparr>Query = [], Header = [(''Authorization'', ''Basic'')], Body = None\<rparr>"
  let ?wrong = "\<lparr>Query = [(''u'', ''root''), (''p'', ''bad'')], Header = [], Body = None\<rparr>"
  let ?right = "\<lparr>Query = [(''u'', ''root''), (''p'', ''pw'')], Header = [], Body = None\<rparr>"
  have enabled: "AuthenticationEnabled (testHandler True)" "\<not> AuthenticationEnabled (testHandler False)"
    by (simp_all add: testHandler_def)
  have fresh: "code (resp (start adminStore)) = None" "calls (start adminStore) = []"
    by (simp_all add: start_def)
  have bad: "getUsernameAndPassword ?bad = Inl (Errorf ''invalid Basic Authentication header'')"
    by (simp add: getUsernameAndPassword_def Get_def)
  have wrong: "getUsernameAndPassword ?wrong = Inr (''root'', ''bad'')"
    by (simp add: getUsernameAndPassword_def Get_def)
  have right: "getUsernameAndPassword ?right = Inr (''root'', ''pw'')"
    by (simp add: getUsernameAndPassword_def Get_def)
  have refused: "AuthenticatedUser (server (testHandler True)) (store (start adminStore)) ''root'' ''bad''
      = ((None, Some (Errorf ''invalid username or password'')), adminStore)"
    by (simp add: test_defs)
  have accepted: "AuthenticatedUser (server (testHandler True)) (store (start adminStore)) ''root'' ''pw''
      = ((Some \<lparr>user_Name = ''root'', user_Admin = True\<rparr>, None), adminStore)"
    by (simp add: test_defs)
  have A: "makeAuthenticationHandler (testHandler False) (serveDatabases (testHandler False))
         ?bad (start adminStore)
       = serveDatabases (testHandler False) ?bad None (start adminStore)"
    using authentication_gate [where h = "testHandler False"] enabled by blast
  have B: "makeAuthenticationHandler (testHandler True) (serveDatabases (testHandler True))
         ?bad (start adminStore)
       = error (ErrorText (Errorf ''invalid Basic Authentication header'')) StatusUnauthorized
           (start adminStore)
     \<and> status (resp (makeAuthenticationHandler (testHandler True) (serveDatabases (testHandler True))
         ?bad (start adminStore))) = StatusUnauthorized"
    using authentication_gate [where h = "testHandler True" and r = ?bad
        and x = "start adminStore" and e = "Errorf ''invalid Basic Authentication header''"]
      enabled bad fresh by blast
  have C: "calls (makeAuthenticationHandler (testHandler True) (serveDatabases (testHandler True))
         ?wrong (start adminStore)) = [CallAuthenticatedUser ''root'' ''bad'']
     \<and> status (resp (makeAuthenticationHandler (testHandler True) (serveDatabases (testHandler True))
         ?wrong (start adminStore))) = StatusUnauthorized"
    using enabled wrong refused fresh
      authentication_gate [where h = "testHandler True" and r = ?wrong
        and x = "start adminStore" and username = "''root''" and password = "''bad''"
        and user = None and e' = "Errorf ''invalid username or password''" and s' = adminStore
        and fn = "serveDatabases (testHandler True)"]
    by (simp add: error_unfold status_error)
  have D: "makeAuthenticationHandler (testHandler True) (serveDatabases (testHandler True))
         ?right (start adminStore)
       = serveDatabases (testHandler True) ?right
           (Some \<lparr>user_Name = ''root'', user_Admin = True\<rparr>)
           ((start adminStore)\<lparr>store := adminStore, calls := [CallAuthenticatedUser ''root'' ''pw'']\<rparr>)"
    using enabled right accepted fresh
      authentication_gate [where h = "testHandler True" and r = ?right
        and x = "start adminStore" and username = "''root''" and password = "''pw''"
        and user = "Some \<lparr>user_Name = ''root'', user_Admin = True\<rparr>" and s' = adminStore
        and fn = "serveDatabases (testHandler True)"]
    by simp
  from enabled bad wrong right refused accepted A B C D show ?thesis
    by blast
qed

text \<open>
  Claim C7, as stated, counts every Authorization header that is not exactly two
  space-separated tokens as malformed, and says that the extractor then returns an
  error. A header that is present with the empty value splits into one token, but the
  extractor reads it as absent and returns the empty credentials with no error; what
  the gate answers is then up to \<open>AuthenticatedUser\<close>. On a test server that has a user
  with the empty name and password, the wrapped handler runs and the response is 200.
\<close>

theorem empty_authorization_header_accepted:
  "AuthenticationEnabled (testHandler True)
   \<and> map_of [(''Authorization'', [])] ''Authorization'' = Some []
   \<and> length (Split (Get [(''Authorization'', [])] ''Authorization'') (CHR '' '')) \<noteq> 2
   \<and> getUsernameAndPassword \<lparr>Query = [], Header = [(''Authorization'', [])], Body = None\<rparr>
       = Inr ([], [])
   \<and> calls (makeAuthenticationHandler (testHandler True) (serveDatabases (testHandler True))
        \<lparr>Query = [], Header = [(''Authorization'', [])], Body = None\<rparr>
        (start (emptyStore\<lparr>ts_users := [([], [], False)]\<rparr>)))
       = [CallAuthenticatedUser [] [], CallDatabases]
   \<and> status (resp (makeAuthenticationHandler (testHandler True) (serveDatabases (testHandler True))
        \<lparr>Query = [], Header = [(''Authorization'', [])], Body = None\<rparr>
        (start (emptyStore\<lparr>ts_users := [([], [], False)]\<rparr>)))) = StatusOK"
proof -
  let ?r = "\<lparr>Query = [], Header = [(''Authorization'', [])], Body = None\<rparr>"
  have enabled: "AuthenticationEnabled (testHandler True)"
    by (simp add: testHandler_def)
  have present: "map_of [(''Authorization'', [])] ''Authorization'' = Some []"
    by simp
  have tokens: "length (Split (Get [(''Authorization'', [])] ''Authorization'') (CHR '' '')) \<noteq> 2"
    by (simp add: Get_def)
  have extracted: "getUsernameAndPassword ?r = Inr ([], [])"
    by (simp add: getUsernameAndPassword_def Get_def)
  have run: "makeAuthenticationHandler (testHandler True) (serveDatabases (testHandler True)) ?r
        (start (emptyStore\<lparr>ts_users := [([], [], False)]\<rparr>))
      = \<lparr>store = emptyStore\<lparr>ts_users := [([], [], False)]\<rparr>,
         calls = [CallAuthenticatedUser [] [], CallDatabases],
         resp = \<lparr>header = [(''content-type'', ''application/json'')], code = Some StatusOK,
                 body = [JsonLine (EncValue [])]\<rparr>,
         panicked = False\<rparr>"
    by (simp add: makeAuthenticationHandler_def extracted serveDatabases_def respond_json_def
        Write_def WriteHeader_def Header_Add_def invoke_def test_defs)
  have "calls (makeAuthenticationHandler (testHandler True) (serveDatabases (testHandler True)) ?r
        (start (emptyStore\<lparr>ts_users := [([], [], False)]\<rparr>)))
      = [CallAuthenticatedUser [] [], CallDatabases]"
    and "status (resp (makeAuthenticationHandler (testHandler True)
        (serveDatabases (testHandler True)) ?r
        (start (emptyStore\<lparr>ts_users := [([], [], False)]\<rparr>)))) = StatusOK"
    by (simp_all add: run status_def)
  with enabled present tokens extracted show ?thesis
    by blast
qed

text \<open>
  Claim C7, amended. With authentication enabled, a request that does not carry both
  query parameters and whose Authorization header has a value that is not empty and is
  malformed: not exactly two space-separated tokens, or a second token that is not valid
  Base64, or a decoded value that does not have exactly two colon-separated fields. The
  extractor returns an error, and the gate answers 401 (so not 500) without running the
  wrapped handler.
\<close>

theorem malformed_authorization_unauthorized:
  assumes "AuthenticationEnabled h"
    and "\<not> (Get (Query r) ''u'' \<noteq> [] \<and> Get (Query r) ''p'' \<noteq> [])"
    and "Get (Header r) ''Authorization'' = auth"
    and "auth \<noteq> []"
    and "length (Split auth (CHR '' '')) \<noteq> 2
         \<or> DecodeString (Split auth (CHR '' '') ! 1) = None
         \<or> (\<exists>bs. DecodeString (Split auth (CHR '' '') ! 1) = Some bs
                \<and> length (Split bs (CHR '':'')) \<noteq> 2)"
  shows "\<exists>e. getUsernameAndPassword r = Inl e
    \<and> makeAuthenticationHandler h fn r x = error (ErrorText e) StatusUnauthorized x
    \<and> (code (resp x) = None \<longrightarrow>
         status (resp (makeAuthenticationHandler h fn r x)) = StatusUnauthorized
         \<and> status (resp (makeAuthenticationHandler h fn r x)) \<noteq> StatusInternalServerError)"
proof -
  have "\<exists>e. getUsernameAndPassword r = Inl e"
    using assms(2-5)
    by (auto simp add: getUsernameAndPassword_def Let_def simp del: Split.simps)
  then obtain e where e: "getUsernameAndPassword r = Inl e" ..
  hence "makeAuthenticationHandler h fn r x = error (ErrorText e) StatusUnauthorized x"
    using assms(1) by (simp add: makeAuthenticationHandler_def)
  with e show ?thesis
    by (auto simp add: status_error)
qed

text \<open>One request for each of the three ways a header is malformed.\<close>

theorem malformed_authorization_unauthorized_witness:
  "AuthenticationEnabled (testHandler True)
   \<and> length (Split ''Basic'' (CHR '' '')) \<noteq> 2
   \<and> status (resp (makeAuthenticationHandler (testHandler True) (serveDatabases (testHandler True))
        \<lparr>Query = [(''u'', ''bob'')], Header = [(''Authorization'', ''Basic'')], Body = None\<rparr>
        (start adminStore))) = StatusUnauthorized
   \<and> length (Split ''Basic !!!!'' (CHR '' '')) = 2
   \<and> DecodeString (Split ''Basic !!!!'' (CHR '' '') ! 1) = None
   \<and> status (resp (makeAuthenticationHandler (testHandler True) (serveDatabases (testHandler True))
        \<lparr>Query = [(''u'', ''bob'')], Header = [(''Authorization'', ''Basic !!!!'')], Body = None\<rparr>
        (start adminStore))) = StatusUnauthorized
   \<and> length (Split ''Basic YWxpY2U6YTpi'' (CHR '' '')) = 2
   \<and> DecodeString (Split ''Basic YWxpY2U6YTpi'' (CHR '' '') ! 1) = Some ''alice:a:b''
   \<and> length (Split ''alice:a:b'' (CHR '':'')) \<noteq> 2
   \<and> status (resp (makeAuthenticationHandler (testHandler True) (serveDatabases (testHandler True))
        \<lparr>Query = [(''u'', ''bob'')], Header = [(''Authorization'', ''Basic YWxpY2U6YTpi'')],
         Body = None\<rparr>
        (start adminStore))) = StatusUnauthorized"
proof -
  have enabled: "AuthenticationEnabled (testHandler True)"
    by (simp add: testHandler_def)
  have fresh: "code (resp (start adminStore)) = None"
    by (simp add: start_def)
  have query: "\<not> (Get [(''u'', ''bob'')] ''u'' \<noteq> [] \<and> Get [(''u'', ''bob'')] ''p'' \<noteq> [])"
    by (simp add: Get_def)
  have one: "length (Split ''Basic'' (CHR '' '')) \<noteq> 2"
    by simp
  have two: "length (Split ''Basic !!!!'' (CHR '' '')) = 2"
    "length (Split ''Basic YWxpY2U6YTpi'' (CHR '' '')) = 2"
    by simp_all
  have corrupt: "DecodeString (Split ''Basic !!!!'' (CHR '' '') ! 1) = None"
    by code_simp
  have enc: "''YWxpY2U6YTpi'' = EncodeToString ''alice:a:b''"
    by code_simp
  have token: "Split ''Basic YWxpY2U6YTpi'' (CHR '' '') ! 1 = ''YWxpY2U6YTpi''"
    by simp
  have decoded: "DecodeString (Split ''Basic YWxpY2U6YTpi'' (CHR '' '') ! 1) = Some ''alice:a:b''"
    unfolding token unfolding enc by (rule DecodeString_EncodeToString)
  have three: "length (Split ''alice:a:b'' (CHR '':'')) \<noteq> 2"
    by simp
  have A: "status (resp (makeAuthenticationHandler (testHandler True) (serveDatabases (testHandler True))
        \<lparr>Query = [(''u'', ''bob'')], Header = [(''Authorization'', ''Basic'')], Body = None\<rparr>
        (start adminStore))) = StatusUnauthorized"
    using malformed_authorization_unauthorized [where h = "testHandler True"
        and r = "\<lparr>Query = [(''u'', ''bob'')], Header = [(''Authorization'', ''Basic'')], Body = None\<rparr>"
        and auth = "''Basic''" and x = "start adminStore"
        and fn = "serveDatabases (testHandler True)", OF enabled] query one fresh
    by (auto simp add: Get_def)
  have B: "status (resp (makeAuthenticationHandler (testHandler True) (serveDatabases (testHandler True))
        \<lparr>Query = [(''u'', ''bob'')], Header = [(''Authorization'', ''Basic !!!!'')], Body = None\<rparr>
        (start adminStore))) = StatusUnauthorized"
    using malformed_authorization_unauthorized [where h = "testHandler True"
        and r = "\<lparr>Query = [(''u'', ''bob'')], Header = [(''Authorization'', ''Basic !!!!'')],
                  Body = None\<rparr>"
        and auth = "''Basic !!!!''" and x = "start adminStore"
        and fn = "serveDatabases (testHandler True)", OF enabled] query corrupt fresh
    by (auto simp add: Get_def simp del: Split.simps)
  have C: "status (resp (makeAuthenticationHandler (testHandler True) (serveDatabases (testHandler True))
        \<lparr>Query = [(''u'', ''bob'')], Header = [(''Authorization'', ''Basic YWxpY2U6YTpi'')],
         Body = None\<rparr>
        (start adminStore))) = StatusUnauthorized"
    using malformed_authorization_unauthorized [where h = "testHandler True"
        and r = "\<lparr>Query = [(''u'', ''bob'')], Header = [(''Authorization'', ''Basic YWxpY2U6YTpi'')],
                  Body = None\<rparr>"
        and auth = "''Basic YWxpY2U6YTpi''" and x = "start adminStore"
        and fn = "serveDatabases (testHandler True)", OF enabled] query decoded three fresh
    by (auto simp add: Get_def simp del: Split.simps)
  from enabled one two corrupt decoded three A B C show ?thesis
    by blast
qed

section \<open>Creating a user\<close>

text \<open>
  Claim C1, as stated, says that the credential check of \<^verbatim>\<open>POST /users\<close> is skipped if and
  only if authentication is enabled, no administrator exists and the new user is an
  administrator. With authentication disabled the check is skipped as well: on the empty
  test server, a request without credentials creates the user \<^verbatim>\<open>bob\<close>, who is not an
  administrator, and \<open>AuthenticatedUser\<close> is never called.
\<close>

theorem createUser_unchecked_when_disabled:
  "\<not> AuthenticationEnabled (testHandler False)
   \<and> getUsernameAndPassword (createUserRequest [] [] ''bob'' ''pw'' False) = Inr ([], [])
   \<and> serveCreateUser (testHandler False) (createUserRequest [] [] ''bob'' ''pw'' False)
         (start emptyStore)
       = \<lparr>store = emptyStore\<lparr>ts_users := [(''bob'', ''pw'', False)]\<rparr>,
          calls = [CallCreateUser ''bob'' ''pw'' False],
          resp = \<lparr>header = [], code = None, body = []\<rparr>,
          panicked = False\<rparr>"
  by (simp add: serveCreateUser_def decode_defs serveCreateUser_create_def
      invoke_def test_defs getUsernameAndPassword_def Get_def)

text \<open>
  Claim C1, amended. For a body that decodes to \<open>newUser\<close>: the credential check is skipped
  if and only if authentication is disabled, or it is enabled, no administrator exists
  and the new user is an administrator; in both cases the handler goes on to create the
  user. In every other case (authentication enabled, and an administrator exists or the
  new user is not one) an error of the credential extractor or of \<open>AuthenticatedUser\<close>
  gives the response 401 and \<open>CreateUser\<close> is not called (the calls made are those
  listed), and the user is created only after \<open>AuthenticatedUser\<close> has returned no error.
\<close>

theorem createUser_authentication_policy:
  assumes "Decode decode_userJSON (Body r) = Some newUser"
  shows
  "(\<not> AuthenticationEnabled h \<longrightarrow>
      serveCreateUser h r x = serveCreateUser_create h newUser x)
   \<and> (AuthenticationEnabled h \<and> AdminUserExists (server h) (store x) = (False, s1)
        \<and> Admin newUser \<longrightarrow>
        serveCreateUser h r x =
          serveCreateUser_create h newUser
            (x\<lparr>store := s1, calls := calls x @ [CallAdminUserExists]\<rparr>))
   \<and> (AuthenticationEnabled h \<and> AdminUserExists (server h) (store x) = (adminExists, s1)
        \<and> (adminExists \<or> \<not> Admin newUser) \<and> getUsernameAndPassword r = Inl e \<longrightarrow>
        serveCreateUser h r x =
          error (ErrorText e) StatusUnauthorized
            (x\<lparr>store := s1, calls := calls x @ [CallAdminUserExists]\<rparr>)
        \<and> calls (serveCreateUser h r x) = calls x @ [CallAdminUserExists]
        \<and> (code (resp x) = None \<longrightarrow> status (resp (serveCreateUser h r x)) = StatusUnauthorized))
   \<and> (AuthenticationEnabled h \<and> AdminUserExists (server h) (store x) = (adminExists, s1)
        \<and> (adminExists \<or> \<not> Admin newUser)
        \<and> getUsernameAndPassword r = Inr (username, password)
        \<and> AuthenticatedUser (server h) s1 username password = ((user, Some e'), s2) \<longrightarrow>
        serveCreateUser h r x =
          error (ErrorText e') StatusUnauthorized
            (x\<lparr>store := s2,
               calls := calls x @ [CallAdminUserExists, CallAuthenticatedUser username password]\<rparr>)
        \<and> calls (serveCreateUser h r x) =
            calls x @ [CallAdminUserExists, CallAuthenticatedUser username password]
        \<and> (code (resp x) = None \<longrightarrow> status (resp (serveCreateUser h r x)) = StatusUnauthorized))
   \<and> (AuthenticationEnabled h \<and> AdminUserExists (server h) (store x) = (adminExists, s1)
        \<and> (adminExists \<or> \<not> Admin newUser)
        \<and> getUsernameAndPassword r = Inr (username, password)
        \<and> AuthenticatedUser (server h) s1 username password = ((user, None), s2) \<longrightarrow>
        serveCreateUser h r x =
          serveCreateUser_create h newUser
            (x\<lparr>store := s2,
               calls := calls x @ [CallAdminUserExists, CallAuthenticatedUser username password]\<rparr>))"
  using assms
  by (auto simp add: serveCreateUser_def invoke_def status_error error_unfold)

text \<open>
  The five cases on the test server: authentication disabled; the first administrator;
  a malformed header; a second administrator without credentials, which is refused; and
  a user created with the administrator's credentials.
\<close>

theorem createUser_authentication_policy_witness:
  "(\<not> AuthenticationEnabled (testHandler False)
    \<and> calls (serveCreateUser (testHandler False) (createUserRequest [] [] ''bob'' ''pw'' False)
         (start emptyStore)) = [CallCreateUser ''bob'' ''pw'' False])
   \<and> (AuthenticationEnabled (testHandler True)
    \<and> AdminUserExists (server (testHandler True)) (store (start emptyStore)) = (False, emptyStore)
    \<and> calls (serveCreateUser (testHandler True) (createUserRequest [] [] ''root'' ''pw'' True)
         (start emptyStore)) = [CallAdminUserExists, CallCreateUser ''root'' ''pw'' True])
   \<and> (getUsernameAndPassword
         (createUserRequest [] [(''Authorization'', ''Basic'')] ''bob'' ''pw'' False)
         = Inl (Errorf ''invalid Basic Authentication header'')
    \<and> calls (serveCreateUser (testHandler True)
         (createUserRequest [] [(''Authorization'', ''Basic'')] ''bob'' ''pw'' False)
         (start emptyStore)) = [CallAdminUserExists]
    \<and> status (resp (serveCreateUser (testHandler True)
         (createUserRequest [] [(''Authorization'', ''Basic'')] ''bob'' ''pw'' False)
         (start emptyStore))) = StatusUnauthorized)
   \<and> (AdminUserExists (server (testHandler True)) (store (start adminStore)) = (True, adminStore)
    \<and> getUsernameAndPassword (createUserRequest [] [] ''eve'' ''pw'' True) = Inr ([], [])
    \<and> calls (serveCreateUser (testHandler True) (createUserRequest [] [] ''eve'' ''pw'' True)
         (start adminStore)) = [CallAdminUserExists, CallAuthenticatedUser [] []]
    \<and> status (resp (serveCreateUser (testHandler True) (createUserRequest [] [] ''eve'' ''pw'' True)
         (start adminStore))) = StatusUnauthorized)
   \<and> (getUsernameAndPassword
         (createUserRequest [(''u'', ''root''), (''p'', ''pw'')] [] ''bob'' ''pw'' False)
         = Inr (''root'', ''pw'')
    \<and> calls (serveCreateUser (testHandler True)
         (createUserRequest [(''u'', ''root''), (''p'', ''pw'')] [] ''bob'' ''pw'' False)
         (start adminStore))
       = [CallAdminUserExists, CallAuthenticatedUser ''root'' ''pw'',
          CallCreateUser ''bob'' ''pw'' False])"
proof -
  note pol = createUser_authentication_policy [OF createUserRequest_decodes]
  have enabled: "AuthenticationEnabled (testHandler True)" "\<not> AuthenticationEnabled (testHandler False)"
    by (simp_all add: testHandler_def)
  have none: "AdminUserExists (server (testHandler True)) (store (start emptyStore)) = (False, emptyStore)"
    by (simp add: test_defs)
  have root: "AdminUserExists (server (testHandler True)) (store (start adminStore)) = (True, adminStore)"
    by (simp add: test_defs)
  have bad: "getUsernameAndPassword
      (createUserRequest [] [(''Authorization'', ''Basic'')] ''bob'' ''pw'' False)
      = Inl (Errorf ''invalid Basic Authentication header'')"
    by (simp add: createUserRequest_def getUsernameAndPassword_def Get_def)
  have absent: "getUsernameAndPassword (createUserRequest [] [] ''eve'' ''pw'' True) = Inr ([], [])"
    by (simp add: createUserRequest_def getUsernameAndPassword_def Get_def)
  have query: "getUsernameAndPassword
      (createUserRequest [(''u'', ''root''), (''p'', ''pw'')] [] ''bob'' ''pw'' False)
      = Inr (''root'', ''pw'')"
    by (simp add: createUserRequest_def getUsernameAndPassword_def Get_def)
  have refused: "AuthenticatedUser (server (testHandler True)) adminStore [] []
      = ((None, Some (Errorf ''invalid username or password'')), adminStore)"
    by (simp add: test_defs)
  have accepted: "AuthenticatedUser (server (testHandler True)) adminStore ''root'' ''pw''
      = ((Some \<lparr>user_Name = ''root'', user_Admin = True\<rparr>, None), adminStore)"
    by (simp add: test_defs)
  have A: "calls (serveCreateUser (testHandler False) (createUserRequest [] [] ''bob'' ''pw'' False)
         (start emptyStore)) = [CallCreateUser ''bob'' ''pw'' False]"
    using pol [of "testHandler False" "[]" "[]" "''bob''" "''pw''" False "start emptyStore"] enabled
    by (simp add: serveCreateUser_create_def invoke_def test_defs)
  have B: "calls (serveCreateUser (testHandler True) (createUserRequest [] [] ''root'' ''pw'' True)
         (start emptyStore)) = [CallAdminUserExists, CallCreateUser ''root'' ''pw'' True]"
    using pol [of "testHandler True" "[]" "[]" "''root''" "''pw''" True "start emptyStore" emptyStore]
      enabled none
    by (simp add: serveCreateUser_create_def invoke_def test_defs)
  have C: "calls (serveCreateUser (testHandler True)
         (createUserRequest [] [(''Authorization'', ''Basic'')] ''bob'' ''pw'' False)
         (start emptyStore)) = [CallAdminUserExists]
    \<and> status (resp (serveCreateUser (testHandler True)
         (createUserRequest [] [(''Authorization'', ''Basic'')] ''bob'' ''pw'' False)
         (start emptyStore))) = StatusUnauthorized"
    using pol [of "testHandler True" "[]" "[(''Authorization'', ''Basic'')]" "''bob''" "''pw''" False
        "start emptyStore" emptyStore False "Errorf ''invalid Basic Authentication header''"]
      enabled none bad
    by (simp add: start_def error_unfold status_error)
  have D: "calls (serveCreateUser (testHandler True) (createUserRequest [] [] ''eve'' ''pw'' True)
         (start adminStore)) = [CallAdminUserExists, CallAuthenticatedUser [] []]
    \<and> status (resp (serveCreateUser (testHandler True) (createUserRequest [] [] ''eve'' ''pw'' True)
         (start adminStore))) = StatusUnauthorized"
    using pol [of "testHandler True" "[]" "[]" "''eve''" "''pw''" True
        "start adminStore" adminStore True _ "[]" "[]" None
        "Errorf ''invalid username or password''" adminStore]
      enabled root absent refused
    by (simp add: start_def error_unfold status_error)
  have E: "calls (serveCreateUser (testHandler True)
         (createUserRequest [(''u'', ''root''), (''p'', ''pw'')] [] ''bob'' ''pw'' False)
         (start adminStore))
       = [CallAdminUserExists, CallAuthenticatedUser ''root'' ''pw'',
          CallCreateUser ''bob'' ''pw'' False]"
    using pol [of "testHandler True" "[(''u'', ''root''), (''p'', ''pw'')]" "[]" "''bob''" "''pw''"
        False "start adminStore" adminStore True _ "''root''" "''pw''"
        "Some \<lparr>user_Name = ''root'', user_Admin = True\<rparr>" _ adminStore]
      enabled root query accepted
    by (simp add: serveCreateUser_create_def invoke_def test_defs)
  from enabled none root bad absent query A B C D E show ?thesis
    by (simp only: simp_thms)
qed

text \<open>
  Claim C10. A \<^verbatim>\<open>POST /users\<close> request whose body does not decode as the user wire shape is
  answered with 400, whatever the authentication setting and the credentials: the server
  is not called at all, so no credential check has taken place.
\<close>

theorem createUser_bad_body:
  assumes "Decode decode_userJSON (Body r) = None"
  shows "serveCreateUser h r x = error DecodeError StatusBadRequest x
    \<and> calls (serveCreateUser h r x) = calls x
    \<and> store (serveCreateUser h r x) = store x
    \<and> (code (resp x) = None \<longrightarrow> status (resp (serveCreateUser h r x)) = StatusBadRequest)"
  using assms by (simp add: serveCreateUser_def status_error error_unfold)

text \<open>With authentication enabled and no credentials, a body that is a JSON array.\<close>

theorem createUser_bad_body_witness:
  "Decode decode_userJSON (Body \<lparr>Query = [], Header = [], Body = Some (JArray [])\<rparr>) = None
   \<and> AuthenticationEnabled (testHandler True)
   \<and> calls (serveCreateUser (testHandler True) \<lparr>Query = [], Header = [], Body = Some (JArray [])\<rparr>
        (start emptyStore)) = []
   \<and> status (resp (serveCreateUser (testHandler True)
        \<lparr>Query = [], Header = [], Body = Some (JArray [])\<rparr> (start emptyStore))) = StatusBadRequest"
proof -
  let ?r = "\<lparr>Query = [], Header = [], Body = Some (JArray [])\<rparr>"
  have dec: "Decode decode_userJSON (Body ?r) = None"
    by (simp add: decode_defs)
  have enabled: "AuthenticationEnabled (testHandler True)"
    by (simp add: testHandler_def)
  from createUser_bad_body [OF dec, of "testHandler True" "start emptyStore"]
  have "calls (serveCreateUser (testHandler True) ?r (start emptyStore)) = []
    \<and> status (resp (serveCreateUser (testHandler True) ?r (start emptyStore))) = StatusBadRequest"
    by (simp add: start_def error_unfold status_error)
  with dec enabled show ?thesis
    by (simp only: simp_thms)
qed

section \<open>Creation requests and their bodies\<close>

text \<open>
  Claim C5, as stated, says that a creation request whose body lacks a required field is
  answered with 400 before the server is called, and counts the name, the password and
  the admin flag of a user as required. The body \<^verbatim>\<open>{}\<close> of a \<^verbatim>\<open>POST /users\<close> request decodes
  to the zero user, and with authentication disabled \<open>CreateUser\<close> is called with the
  empty name and password; the response is not 400.
\<close>

theorem createUser_missing_fields_reaches_store:
  "Decode decode_userJSON (Some (JObject [])) = Some \<lparr>Name = [], Password = [], Admin = False\<rparr>
   \<and> calls (serveCreateUser (testHandler False) \<lparr>Query = [], Header = [], Body = Some (JObject [])\<rparr>
        (start emptyStore)) = [CallCreateUser [] [] False]
   \<and> status (resp (serveCreateUser (testHandler False)
        \<lparr>Query = [], Header = [], Body = Some (JObject [])\<rparr> (start emptyStore))) = StatusOK"
  by (simp add: Decode_def decode_userJSON_def decode_struct_def serveCreateUser_def
      serveCreateUser_create_def testHandler_def testServer_def invoke_def start_def
      emptyStore_def status_def)

text \<open>
  This does not depend on the server: with authentication disabled, a body that decodes
  always reaches \<open>CreateUser\<close>, and the response is never 400.
\<close>

lemma serveCreateUser_reaches_store:
  assumes "Decode decode_userJSON (Body r) = Some newUser" and "\<not> AuthenticationEnabled h"
  shows "calls (serveCreateUser h r x)
      = calls x @ [CallCreateUser (Name newUser) (Password newUser) (Admin newUser)]"
    and "code (resp x) = None \<Longrightarrow> status (resp (serveCreateUser h r x)) \<noteq> StatusBadRequest"
  using assms
  by (auto simp add: serveCreateUser_def serveCreateUser_create_def invoke_def error_def
      http_Error_def Write_def WriteHeader_def status_def split: prod.splits option.splits)

text \<open>A body with no \<^verbatim>\<open>name\<close> member decodes to the empty database name.\<close>

lemma foldl_createDatabaseReq_no_name:
  "\<forall>m\<in>set ms. \<not> key_matches ''name'' (fst m) \<Longrightarrow>
   foldl (\<lambda>acc m. createDatabaseReq_member m acc) acc ms = acc"
  by (induction ms arbitrary: acc) (simp_all add: createDatabaseReq_member_def)

lemma decode_createDatabaseReq_no_name:
  "\<forall>m\<in>set ms. \<not> key_matches ''name'' (fst m) \<Longrightarrow> decode_createDatabaseReq (JObject ms) = Some []"
  by (simp add: decode_createDatabaseReq_def decode_struct_def foldl_createDatabaseReq_no_name)

text \<open>
  Claim C5, amended. What the creation handlers reject with 400 before any call of the
  server: a body that does not decode to the wire shape of the request (database, user,
  retention policy, data node); for a database, a name that is empty, in particular a
  body with no \<^verbatim>\<open>name\<close> member; for a data node, a URL that \<^verbatim>\<open>url.Parse\<close> rejects. The last
  three lines say what an error response is: no call, the same server state, and the
  status code given.
\<close>

theorem create_rejects_undecodable_input:
  "(Decode decode_createDatabaseReq (Body r) = None \<longrightarrow>
      serveCreateDatabase h r u x = error DecodeError StatusBadRequest x)
   \<and> (Decode decode_createDatabaseReq (Body r) = Some [] \<longrightarrow>
      serveCreateDatabase h r u x = error (ErrorText ErrDatabaseNameRequired) StatusBadRequest x)
   \<and> (Body r = Some (JObject ms) \<and> (\<forall>m\<in>set ms. \<not> key_matches ''name'' (fst m)) \<longrightarrow>
      serveCreateDatabase h r u x = error (ErrorText ErrDatabaseNameRequired) StatusBadRequest x)
   \<and> (Decode decode_userJSON (Body r) = None \<longrightarrow>
      serveCreateUser h r x = error DecodeError StatusBadRequest x)
   \<and> (Decode (decode_RetentionPolicy lib) (Body r) = None \<longrightarrow>
      serveCreateRetentionPolicy h lib r u x = error DecodeError StatusBadRequest x)
   \<and> (Decode decode_dataNodeJSON (Body r) = None \<longrightarrow>
      serveCreateDataNode h lib r u x = error DecodeError StatusBadRequest x)
   \<and> (Decode decode_dataNodeJSON (Body r) = Some n \<and> url_Parse lib (URL n) = None \<longrightarrow>
      serveCreateDataNode h lib r u x = error (Literal ''invalid data node url'') StatusBadRequest x)
   \<and> calls (error msg c x) = calls x
   \<and> store (error msg c x) = store x
   \<and> (code (resp x) = None \<longrightarrow> status (resp (error msg c x)) = c)"
  by (simp add: serveCreateDatabase_def serveCreateUser_def serveCreateRetentionPolicy_def
      serveCreateDataNode_def Decode_def decode_createDatabaseReq_no_name status_error error_unfold)

text \<open>One request for each of the seven rejections.\<close>

theorem create_rejects_undecodable_input_witness:
  "(Decode decode_createDatabaseReq None = None
    \<and> serveCreateDatabase (testHandler False) \<lparr>Query = [], Header = [], Body = None\<rparr> None
          (start emptyStore)
        = error DecodeError StatusBadRequest (start emptyStore))
   \<and> (Decode decode_createDatabaseReq (Some (JObject [(''name'', JString [])])) = Some []
    \<and> serveCreateDatabase (testHandler False)
          \<lparr>Query = [], Header = [], Body = Some (JObject [(''name'', JString [])])\<rparr> None
          (start emptyStore)
        = error (ErrorText ErrDatabaseNameRequired) StatusBadRequest (start emptyStore))
   \<and> (\<not> key_matches ''name'' ''title''
    \<and> serveCreateDatabase (testHandler False)
          \<lparr>Query = [], Header = [], Body = Some (JObject [(''title'', JString ''metrics'')])\<rparr> None
          (start emptyStore)
        = error (ErrorText ErrDatabaseNameRequired) StatusBadRequest (start emptyStore))
   \<and> (Decode decode_userJSON (Some (JObject [(''name'', JNumber ''7'')])) = None
    \<and> serveCreateUser (testHandler False)
          \<lparr>Query = [], Header = [], Body = Some (JObject [(''name'', JNumber ''7'')])\<rparr>
          (start emptyStore)
        = error DecodeError StatusBadRequest (start emptyStore))
   \<and> (Decode (decode_RetentionPolicy testLib) (Some (JBool True)) = None
    \<and> serveCreateRetentionPolicy (testHandler False) testLib
          \<lparr>Query = [('':db'', ''metrics'')], Header = [], Body = Some (JBool True)\<rparr> None
          (start emptyStore)
        = error DecodeError StatusBadRequest (start emptyStore))
   \<and> (Decode decode_dataNodeJSON (Some (JObject [(''id'', JString ''one'')])) = None
    \<and> serveCreateDataNode (testHandler False) testLib
          \<lparr>Query = [], Header = [], Body = Some (JObject [(''id'', JString ''one'')])\<rparr> None
          (start emptyStore)
        = error DecodeError StatusBadRequest (start emptyStore))
   \<and> (Decode decode_dataNodeJSON (Some (JObject [(''url'', JString '':8086'')]))
          = Some \<lparr>ID = 0, URL = '':8086''\<rparr>
    \<and> url_Parse testLib '':8086'' = None
    \<and> serveCreateDataNode (testHandler False) testLib
          \<lparr>Query = [], Header = [], Body = Some (JObject [(''url'', JString '':8086'')])\<rparr> None
          (start emptyStore)
        = error (Literal ''invalid data node url'') StatusBadRequest (start emptyStore))
   \<and> calls (error DecodeError StatusBadRequest (start emptyStore)) = []
   \<and> store (error DecodeError StatusBadRequest (start emptyStore)) = emptyStore
   \<and> status (resp (error DecodeError StatusBadRequest (start emptyStore))) = StatusBadRequest"
proof -
  note inst = create_rejects_undecodable_input
    [where h = "testHandler False" and lib = testLib and u = None and x = "start emptyStore"]
  have fresh: "code (resp (start emptyStore)) = None" "calls (start emptyStore) = []"
    "store (start emptyStore) = emptyStore"
    by (simp_all add: start_def)
  have d1: "Decode decode_createDatabaseReq None = None"
    by (simp add: Decode_def)
  have d2: "Decode decode_createDatabaseReq (Some (JObject [(''name'', JString [])])) = Some []"
    by (simp add: decode_defs)
  have k3: "\<not> key_matches ''name'' ''title''"
    by (simp add: key_matches_def foldName.simps upper_byte_def)
  hence d3: "\<forall>m\<in>set [(''title'', JString ''metrics'')]. \<not> key_matches ''name'' (fst m)"
    by simp
  have d4: "Decode decode_userJSON (Some (JObject [(''name'', JNumber ''7'')])) = None"
    by (simp add: decode_defs)
  have d5: "Decode (decode_RetentionPolicy testLib) (Some (JBool True)) = None"
    by (simp add: Decode_def testLib_def)
  have d6: "Decode decode_dataNodeJSON (Some (JObject [(''id'', JString ''one'')])) = None"
    by (simp add: decode_defs)
  have d7: "Decode decode_dataNodeJSON (Some (JObject [(''url'', JString '':8086'')]))
      = Some \<lparr>ID = 0, URL = '':8086''\<rparr>"
    by (simp add: decode_defs)
  have d8: "url_Parse testLib '':8086'' = None"
    by (simp add: testLib_def)
  have c1: "serveCreateDatabase (testHandler False) \<lparr>Query = [], Header = [], Body = None\<rparr> None
          (start emptyStore)
        = error DecodeError StatusBadRequest (start emptyStore)"
    using d1 inst [where r = "\<lparr>Query = [], Header = [], Body = None\<rparr>"] by simp
  have c2: "serveCreateDatabase (testHandler False)
          \<lparr>Query = [], Header = [], Body = Some (JObject [(''name'', JString [])])\<rparr> None
          (start emptyStore)
        = error (ErrorText ErrDatabaseNameRequired) StatusBadRequest (start emptyStore)"
    using d2
      inst [where r = "\<lparr>Query = [], Header = [], Body = Some (JObject [(''name'', JString [])])\<rparr>"]
    by simp
  have c3: "serveCreateDatabase (testHandler False)
          \<lparr>Query = [], Header = [], Body = Some (JObject [(''title'', JString ''metrics'')])\<rparr> None
          (start emptyStore)
        = error (ErrorText ErrDatabaseNameRequired) StatusBadRequest (start emptyStore)"
    using d3
      inst [where r = "\<lparr>Query = [], Header = [],
                         Body = Some (JObject [(''title'', JString ''metrics'')])\<rparr>"
           and ms = "[(''title'', JString ''metrics'')]"]
    by simp
  have c4: "serveCreateUser (testHandler False)
          \<lparr>Query = [], Header = [], Body = Some (JObject [(''name'', JNumber ''7'')])\<rparr>
          (start emptyStore)
        = error DecodeError StatusBadRequest (start emptyStore)"
    using d4
      inst [where r = "\<lparr>Query = [], Header = [], Body = Some (JObject [(''name'', JNumber ''7'')])\<rparr>"]
    by simp
  have c5: "serveCreateRetentionPolicy (testHandler False) testLib
          \<lparr>Query = [('':db'', ''metrics'')], Header = [], Body = Some (JBool True)\<rparr> None
          (start emptyStore)
        = error DecodeError StatusBadRequest (start emptyStore)"
    using d5
      inst [where r = "\<lparr>Query = [('':db'', ''metrics'')], Header = [], Body = Some (JBool True)\<rparr>"]
    by simp
  have c6: "serveCreateDataNode (testHandler False) testLib
          \<lparr>Query = [], Header = [], Body = Some (JObject [(''id'', JString ''one'')])\<rparr> None
          (start emptyStore)
        = error DecodeError StatusBadRequest (start emptyStore)"
    using d6
      inst [where r = "\<lparr>Query = [], Header = [], Body = Some (JObject [(''id'', JString ''one'')])\<rparr>"]
    by simp
  have c7: "serveCreateDataNode (testHandler False) testLib
          \<lparr>Query = [], Header = [], Body = Some (JObject [(''url'', JString '':8086'')])\<rparr> None
          (start emptyStore)
        = error (Literal ''invalid data node url'') StatusBadRequest (start emptyStore)"
    using d7 d8
      inst [where r = "\<lparr>Query = [], Header = [],
                         Body = Some (JObject [(''url'', JString '':8086'')])\<rparr>"
           and n = "\<lparr>ID = 0, URL = '':8086''\<rparr>"]
    by simp
  have c8: "calls (error DecodeError StatusBadRequest (start emptyStore)) = []
    \<and> store (error DecodeError StatusBadRequest (start emptyStore)) = emptyStore
    \<and> status (resp (error DecodeError StatusBadRequest (start emptyStore))) = StatusBadRequest"
    using fresh inst [where msg = DecodeError and c = StatusBadRequest] by simp
  from d1 d2 k3 d4 d5 d6 d7 d8 c1 c2 c3 c4 c5 c6 c7 c8 show ?thesis
    by blast
qed

section \<open>The status of a successful request\<close>

text \<open>
  The handlers that write a status after the server has returned no error: 201 for a
  created database, retention policy or data node, 204 and no body for a deletion or an
  update, and 200 with the JSON encoding for a listing.
\<close>

lemma serveCreateDatabase_success:
  assumes "Decode decode_createDatabaseReq (Body r) = Some name" and "name \<noteq> []"
    and "CreateDatabase (server h) (store x) name = (None, s')" and "code (resp x) = None"
  shows "status (resp (serveCreateDatabase h r u x)) = StatusCreated"
  using assms by (simp add: serveCreateDatabase_def invoke_def status_respond_status)

lemma serveCreateRetentionPolicy_success:
  assumes "Decode (decode_RetentionPolicy lib) (Body r) = Some policy"
    and "CreateRetentionPolicy (server h) (store x) (Get (Query r) '':db'') policy = (None, s')"
    and "code (resp x) = None"
  shows "status (resp (serveCreateRetentionPolicy h lib r u x)) = StatusCreated"
  using assms by (simp add: serveCreateRetentionPolicy_def invoke_def status_respond_status)

lemma serveCreateDataNode_success:
  assumes "Decode decode_dataNodeJSON (Body r) = Some n" and "url_Parse lib (URL n) = Some url"
    and "CreateDataNode (server h) (store x) url = (None, s')" and "code (resp x) = None"
  shows "status (resp (serveCreateDataNode h lib r u x)) = StatusCreated"
  using assms
  by (auto simp add: serveCreateDataNode_def invoke_def Let_def respond_status_def respond_json_def
      WriteHeader_def Write_def Header_Add_def status_def split: prod.splits option.splits)

lemma serveDeleteDatabase_success:
  assumes "DeleteDatabase (server h) (store x) (Get (Query r) '':name'') = (None, s')"
    and "code (resp x) = None"
  shows "status (resp (serveDeleteDatabase h r u x)) = StatusNoContent
    \<and> body (resp (serveDeleteDatabase h r u x)) = body (resp x)"
  using assms
  by (simp add: serveDeleteDatabase_def Let_def invoke_def status_respond_status body_respond_status)

lemma serveDeleteUser_success:
  assumes "DeleteUser (server h) (store x) (Get (Query r) '':user'') = (None, s')"
    and "code (resp x) = None"
  shows "status (resp (serveDeleteUser h r u x)) = StatusNoContent
    \<and> body (resp (serveDeleteUser h r u x)) = body (resp x)"
  using assms
  by (simp add: serveDeleteUser_def invoke_def status_respond_status body_respond_status)

lemma serveDeleteRetentionPolicy_success:
  assumes "DeleteRetentionPolicy (server h) (store x) (Get (Query r) '':db'') (Get (Query r) '':name'')
      = (None, s')"
    and "code (resp x) = None"
  shows "status (resp (serveDeleteRetentionPolicy h r u x)) = StatusNoContent
    \<and> body (resp (serveDeleteRetentionPolicy h r u x)) = body (resp x)"
  using assms
  by (simp add: serveDeleteRetentionPolicy_def Let_def invoke_def status_respond_status
      body_respond_status)

lemma serveDeleteDataNode_success:
  assumes "ParseUint (Get (Query r) '':id'') = Some nodeID"
    and "DeleteDataNode (server h) (store x) nodeID = (None, s')"
    and "code (resp x) = None"
  shows "status (resp (serveDeleteDataNode h r u x)) = StatusNoContent
    \<and> body (resp (serveDeleteDataNode h r u x)) = body (resp x)"
  using assms
  by (simp add: serveDeleteDataNode_def invoke_def status_respond_status body_respond_status)

lemma serveUpdateUser_success:
  assumes "Decode (\<lambda>j. if decodes_as_User lib j then Some () else None) (Body r) = Some ()"
    and "UpdateUser (server h) (store x) (Get (Query r) '':user'') [] = (None, s')"
    and "code (resp x) = None"
  shows "status (resp (serveUpdateUser h lib r u x)) = StatusNoContent
    \<and> body (resp (serveUpdateUser h lib r u x)) = body (resp x)"
  using assms
  by (simp add: serveUpdateUser_def Let_def invoke_def status_respond_status body_respond_status)

lemma serveUpdateRetentionPolicy_success:
  assumes "Decode (decode_RetentionPolicy lib) (Body r) = Some policy"
    and "UpdateRetentionPolicy (server h) (store x) (Get (Query r) '':db'') (Get (Query r) '':name'')
      policy = (None, s')"
    and "code (resp x) = None"
  shows "status (resp (serveUpdateRetentionPolicy h lib r u x)) = StatusNoContent
    \<and> body (resp (serveUpdateRetentionPolicy h lib r u x)) = body (resp x)"
  using assms
  by (simp add: serveUpdateRetentionPolicy_def Let_def invoke_def status_respond_status
      body_respond_status)

lemma serveDatabases_response:
  assumes "Databases (server h) (store x) = (dbs, s')" and "code (resp x) = None"
  shows "status (resp (serveDatabases h r u x)) = StatusOK
    \<and> body (resp (serveDatabases h r u x)) = body (resp x) @ [JsonLine (EncValue dbs)]"
  using assms by (simp add: serveDatabases_def invoke_def status_respond_json body_respond_json)

lemma serveUsers_response:
  assumes "Users (server h) (store x) = (us, s')" and "code (resp x) = None"
  shows "status (resp (serveUsers h r u x)) = StatusOK
    \<and> body (resp (serveUsers h r u x)) = body (resp x)
        @ [JsonLine (EncUsers
             (map (\<lambda>u. \<lparr>Name = user_Name u, Password = [], Admin = user_Admin u\<rparr>) us))]"
  using assms by (simp add: serveUsers_def invoke_def status_respond_json body_respond_json)

lemma serveShards_success:
  assumes "Shards (server h) (store x) (Get (Query r) '':db'') = ((shards, None), s')"
    and "code (resp x) = None"
  shows "status (resp (serveShards h r u x)) = StatusOK
    \<and> body (resp (serveShards h r u x)) = body (resp x) @ [JsonLine (EncValue shards)]"
  using assms
  by (simp add: serveShards_def Let_def invoke_def status_respond_json body_respond_json)

lemma serveRetentionPolicies_success:
  assumes "RetentionPolicies (server h) (store x) (Get (Query r) '':db'') = ((ps, None), s')"
    and "code (resp x) = None"
  shows "status (resp (serveRetentionPolicies h r u x)) = StatusOK
    \<and> body (resp (serveRetentionPolicies h r u x)) = body (resp x) @ [JsonLine (EncValue ps)]"
  using assms
  by (simp add: serveRetentionPolicies_def invoke_def status_respond_json body_respond_json)

lemma serveDataNodes_response:
  assumes "DataNodes (server h) (store x) = (ns, s')" and "code (resp x) = None"
  shows "status (resp (serveDataNodes h lib r u x)) = StatusOK
    \<and> body (resp (serveDataNodes h lib r u x)) = body (resp x)
        @ [JsonLine (EncDataNodes
             (map (\<lambda>n. \<lparr>ID = node_ID n, URL = url_String lib (node_URL n)\<rparr>) ns))]"
  using assms by (simp add: serveDataNodes_def invoke_def status_respond_json body_respond_json)

text \<open>
  \<open>serveCreateUser\<close> is the exception: after \<open>CreateUser\<close> has returned no error it
  returns without writing to the response.
\<close>

lemma serveCreateUser_create_success:
  "CreateUser (server h) (store x) (Name newUser) (Password newUser) (Admin newUser) = (None, s') \<Longrightarrow>
   resp (serveCreateUser_create h newUser x) = resp x"
  by (simp add: serveCreateUser_create_def invoke_def)

text \<open>
  Claim C6 says that a successful creation is answered with 201, also for a user. On the
  empty test server with authentication disabled, the request that creates the user
  \<^verbatim>\<open>bob\<close> succeeds and leaves the response without a status code, which the client
  receives as 200.
\<close>

theorem createUser_success_status:
  "serveCreateUser (testHandler False)
     \<lparr>Query = [], Header = [],
      Body = Some (JObject [(''name'', JString ''bob''), (''password'', JString ''pw''),
                            (''admin'', JBool True)])\<rparr>
     (start emptyStore)
   = \<lparr>store = emptyStore\<lparr>ts_users := [(''bob'', ''pw'', True)]\<rparr>,
      calls = [CallCreateUser ''bob'' ''pw'' True],
      resp = \<lparr>header = [], code = None, body = []\<rparr>,
      panicked = False\<rparr>
   \<and> status \<lparr>header = [], code = None, body = ([] :: string list chunk list)\<rparr> = StatusOK"
  by (simp add: Decode_def decode_userJSON_def decode_struct_def userJSON_member_def
      key_matches_def foldName.simps upper_byte_def serveCreateUser_def
      serveCreateUser_create_def testHandler_def testServer_def invoke_def start_def
      emptyStore_def status_def)

section \<open>Updating a user\<close>

text \<open>
  Whatever the body, the password that \<open>serveUpdateUser\<close> passes to \<open>UpdateUser\<close> is the
  empty string.
\<close>

lemma serveUpdateUser_calls:
  "calls (serveUpdateUser h lib r u x) = calls x
   \<or> calls (serveUpdateUser h lib r u x) = calls x @ [CallUpdateUser (Get (Query r) '':user'') []]"
  by (auto simp add: serveUpdateUser_def Let_def invoke_def error_unfold respond_status_def
      split: option.splits prod.splits)

text \<open>
  Claim C4 says that the decoded password is forwarded to the server. For the request
  \<^verbatim>\<open>PUT /users/bob\<close> with the body \<^verbatim>\<open>{"password":"secret"}\<close>, \<open>UpdateUser\<close> is called with the
  empty password, which the test server then stores for \<^verbatim>\<open>bob\<close>.
\<close>

theorem updateUser_drops_password:
  "serveUpdateUser (testHandler False) testLib
     \<lparr>Query = [('':user'', ''bob'')], Header = [],
      Body = Some (JObject [(''password'', JString ''secret'')])\<rparr>
     None (start (emptyStore\<lparr>ts_users := [(''bob'', ''old'', False)]\<rparr>))
   = \<lparr>store = emptyStore\<lparr>ts_users := [(''bob'', [], False)]\<rparr>,
      calls = [CallUpdateUser ''bob'' []],
      resp = \<lparr>header = [], code = Some StatusNoContent, body = []\<rparr>,
      panicked = False\<rparr>"
  by (simp add: serveUpdateUser_def Let_def Decode_def testLib_def testHandler_def testServer_def
      invoke_def start_def emptyStore_def Get_def respond_status_def WriteHeader_def)

section \<open>Deleting what does not exist\<close>

text \<open>
  For a database, a user, a retention policy and a data node, the server's not-found
  error is answered with 404.
\<close>

lemma serveDeleteDatabase_not_found:
  "DeleteDatabase (server h) (store x) (Get (Query r) '':name'') = (Some ErrDatabaseNotFound, s') \<Longrightarrow>
   code (resp x) = None \<Longrightarrow> status (resp (serveDeleteDatabase h r u x)) = StatusNotFound"
  by (simp add: serveDeleteDatabase_def Let_def invoke_def status_error)

lemma serveDeleteUser_not_found:
  "DeleteUser (server h) (store x) (Get (Query r) '':user'') = (Some ErrUserNotFound, s') \<Longrightarrow>
   code (resp x) = None \<Longrightarrow> status (resp (serveDeleteUser h r u x)) = StatusNotFound"
  by (simp add: serveDeleteUser_def invoke_def status_error)

lemma serveDeleteRetentionPolicy_not_found:
  "DeleteRetentionPolicy (server h) (store x) (Get (Query r) '':db'') (Get (Query r) '':name'')
     = (Some e, s') \<Longrightarrow>
   e = ErrRetentionPolicyNotFound \<or> e = ErrDatabaseNotFound \<Longrightarrow>
   code (resp x) = None \<Longrightarrow> status (resp (serveDeleteRetentionPolicy h r u x)) = StatusNotFound"
  by (auto simp add: serveDeleteRetentionPolicy_def Let_def invoke_def status_error)

lemma serveDeleteDataNode_not_found:
  "ParseUint (Get (Query r) '':id'') = Some nodeID \<Longrightarrow>
   DeleteDataNode (server h) (store x) nodeID = (Some ErrDataNodeNotFound, s') \<Longrightarrow>
   code (resp x) = None \<Longrightarrow> status (resp (serveDeleteDataNode h r u x)) = StatusNotFound"
  by (simp add: serveDeleteDataNode_def invoke_def status_error)

text \<open>
  Claim C3 says the same of a shard. \<open>serveDeleteShard\<close> does nothing: the server is not
  called and nothing is written, so that \<^verbatim>\<open>DELETE /db/metrics/shards/7\<close> on the empty test
  server, where no shard exists, is answered with 200.
\<close>

theorem deleteShard_does_nothing:
  "serveDeleteShard r u x = x
   \<and> status (resp (NewHandler (testHandler False) testLib DEL_db_shards_id
        \<lparr>Query = [('':db'', ''metrics''), ('':id'', ''7'')], Header = [], Body = None\<rparr>
        (start emptyStore))) = StatusOK"
  by (simp add: serveDeleteShard_def makeAuthenticationHandler_def testHandler_def start_def
      status_def)

end
